theory Spec2Isabelle
  imports Main "HOL-Library.Multiset" "HOL-Library.Word"
begin

section \<open>Data model\<close>

text \<open>
  A Go \<^verbatim>\<open>interface{}\<close> holding a property default: the four dynamic types that
  \<^verbatim>\<open>buildSdkDatatableProperties\<close> can store. A \<^verbatim>\<open>float64\<close> is kept as its 64-bit
  pattern; no arithmetic is done on it.
\<close>

datatype goValue = VBool bool | VString string | VInt int | VFloat64 "64 word"

text \<open>\<^verbatim>\<open>type Datatableproperty struct\<close>; a nil pointer is \<open>None\<close>.\<close>

record Datatableproperty =
  Id_prop :: "string option"
  VarType :: "string option"
  Title :: "string option"
  Default :: "goValue option"
  DisplayOrder :: "int option"

text \<open>A Go \<^verbatim>\<open>map[string]Datatableproperty\<close>.\<close>

type_synonym sdkProps = "string \<rightharpoonup> Datatableproperty"

text \<open>\<^verbatim>\<open>type Jsonschemadocument struct\<close>.\<close>

record Jsonschemadocument =
  Schema :: "string option"
  VarType_doc :: "string option"
  Required :: "string list option"
  Properties :: "sdkProps option"
  AdditionalProperties :: "goValue option"

text \<open>
  \<^verbatim>\<open>platformclientv2.Writabledivision\<close>, \<^verbatim>\<open>type Datatable struct\<close>, and of the vendor
  SDK's \<^verbatim>\<open>Station\<close>, \<^verbatim>\<open>Stationentitylisting\<close> and \<^verbatim>\<open>APIResponse\<close> the fields that the
  two source files read.
\<close>

record Writabledivision =
  Id_div :: "string option"

record Datatable =
  Id_dt :: "string option"
  Name :: "string option"
  Description :: "string option"
  Division :: "Writabledivision option"
  Schema_dt :: "Jsonschemadocument option"

record Station =
  Id_st :: "string option"

record Stationentitylisting =
  Entities :: "Station list option"

record APIResponse =
  StatusCode :: int
  Error_resp :: "string option"
  ErrorMessage :: string
  RawBody :: string

text \<open>
  Functions the two source files call but do not define. Of Go's library:
  \<^verbatim>\<open>strconv.ParseBool\<close>, \<^verbatim>\<open>strconv.Atoi\<close>, \<^verbatim>\<open>strconv.ParseFloat\<close> (an \<^verbatim>\<open>error\<close> is its
  message, on the left), \<^verbatim>\<open>json.Unmarshal\<close> into a \<^verbatim>\<open>*Datatable\<close> (the pointer it leaves
  and its error), and the order in which the run time ranges over a map. Of the provider:
  \<^verbatim>\<open>interfaceToString\<close>. They are parameters of the embedding: a theorem with a free
  \<open>E\<close> holds for each choice of them.
\<close>

record externals =
  ParseBool :: "string \<Rightarrow> string + bool"
  Atoi :: "string \<Rightarrow> string + int"
  ParseFloat :: "string \<Rightarrow> string + 64 word"
  Unmarshal :: "string \<Rightarrow> Datatable option \<times> string option"
  mapRange :: "sdkProps \<Rightarrow> (string \<times> Datatableproperty) list"
  interfaceToString :: "goValue \<Rightarrow> string"

text \<open>
  One element of the \<^verbatim>\<open>properties\<close> list of the resource schema, a
  \<^verbatim>\<open>map[string]interface{}\<close> over the four keys of \<^verbatim>\<open>datatableProperty\<close>, all of
  \<^verbatim>\<open>schema.TypeString\<close>. \<open>None\<close> is a key that is absent from the map.
\<close>

record propMap =
  pm_name :: "string option"
  pm_type :: "string option"
  pm_title :: "string option"
  pm_default :: "string option"

text \<open>
  The \<^verbatim>\<open>*schema.ResourceData\<close> of a datatable or a station: its ID and the attributes of
  the resource schema. An attribute set to nil is \<open>None\<close>; \<open>rd_properties = None\<close> is a nil
  slice.
\<close>

record ResourceData =
  rd_id :: string
  rd_name :: string
  rd_division_id :: "string option"
  rd_description :: "string option"
  rd_properties :: "propMap list option"

text \<open>\<^verbatim>\<open>d.Get(key).(string)\<close>: the zero value for an attribute that is not set.\<close>

definition get_string :: "string option \<Rightarrow> string" where
  "get_string a = (case a of None \<Rightarrow> [] | Some s \<Rightarrow> s)"

text \<open>
  How a function ends when it produces no value: a run-time panic (nil dereference, failed
  type assertion), or error diagnostics with their summary.
\<close>

datatype failure = Panic | Diag string

text \<open>A function that may panic instead of returning.\<close>

datatype 'a run = Panics | Returns 'a

section \<open>Schema to payload\<close>

definition propIdPrefix :: string where
  "propIdPrefix = ''/properties/''"

text \<open>The \<^verbatim>\<open>switch propType\<close> of lines 313-327, with the error check after it.\<close>

definition convertDefault :: "externals \<Rightarrow> string \<Rightarrow> string \<Rightarrow> string \<Rightarrow> failure + goValue" where
  "convertDefault E propType propName def =
     (if propType = ''boolean'' then
        (case ParseBool E def of Inl err \<Rightarrow> Inl (Diag err) | Inr b \<Rightarrow> Inr (VBool b))
      else if propType = ''string'' then Inr (VString def)
      else if propType = ''integer'' then
        (case Atoi E def of Inl err \<Rightarrow> Inl (Diag err) | Inr n \<Rightarrow> Inr (VInt n))
      else if propType = ''number'' then
        (case ParseFloat E def of Inl err \<Rightarrow> Inl (Diag err) | Inr x \<Rightarrow> Inr (VFloat64 x))
      else Inl (Diag (''Invalid type '' @ propType @ '' for Datatable property '' @ propName)))"

text \<open>
  The body of the loop of lines 285-334 for the element at index \<open>i\<close>: the key and the
  value stored into \<^verbatim>\<open>sdkProps\<close>. The assertions \<^verbatim>\<open>propMap["name"].(string)\<close> and
  \<^verbatim>\<open>propMap["type"].(string)\<close> panic on an absent key.
\<close>

definition sdkProp :: "externals \<Rightarrow> nat \<Rightarrow> propMap \<Rightarrow> failure + (string \<times> Datatableproperty)" where
  "sdkProp E i p =
     (case pm_name p of None \<Rightarrow> Inl Panic | Some propName \<Rightarrow>
      case pm_type p of None \<Rightarrow> Inl Panic | Some propType \<Rightarrow>
        let prop = \<lparr>Id_prop = Some (propIdPrefix @ propName), VarType = Some propType,
                     Title = pm_title p, Default = None, DisplayOrder = Some (int i)\<rparr>
        in case pm_default p of
             None \<Rightarrow> Inr (propName, prop)
           | Some def \<Rightarrow>
               if def \<noteq> [] then
                 (case convertDefault E propType propName def of
                    Inl e \<Rightarrow> Inl e
                  | Inr v \<Rightarrow> Inr (propName, prop\<lparr>Default := Some v\<rparr>))
               else Inr (propName, prop))"

text \<open>The loop: \<open>i\<close> is the index of the head of the remaining list.\<close>

fun sdkProps_loop :: "externals \<Rightarrow> nat \<Rightarrow> propMap list \<Rightarrow> sdkProps \<Rightarrow> failure + sdkProps" where
  "sdkProps_loop E i [] m = Inr m"
| "sdkProps_loop E i (p # ps) m =
     (case sdkProp E i p of
        Inl e \<Rightarrow> Inl e
      | Inr (k, v) \<Rightarrow> sdkProps_loop E (Suc i) ps (m(k \<mapsto> v)))"

definition buildSdkDatatableProperties :: "externals \<Rightarrow> ResourceData \<Rightarrow> failure + sdkProps option" where
  "buildSdkDatatableProperties E d =
     (case rd_properties d of
        None \<Rightarrow> Inr None
      | Some properties \<Rightarrow>
          (case sdkProps_loop E 0 properties Map.empty of
             Inl e \<Rightarrow> Inl e
           | Inr m \<Rightarrow> Inr (Some m)))"

definition buildSdkDatatableSchema :: "externals \<Rightarrow> ResourceData \<Rightarrow> failure + Jsonschemadocument" where
  "buildSdkDatatableSchema E d =
     (case buildSdkDatatableProperties E d of
        Inl e \<Rightarrow> Inl e
      | Inr properties \<Rightarrow>
          Inr \<lparr>Schema = Some ''http://json-schema.org/draft-04/schema#'',
               VarType_doc = Some ''object'',
               Required = Some [''key''],
               Properties = properties,
               AdditionalProperties = Some (VBool False)\<rparr>)"

section \<open>Payload to schema\<close>

text \<open>
  Go visits the entries of a map in an order it does not specify. \<open>range_of m kvs\<close>: the
  list \<open>kvs\<close> is one order in which \<^verbatim>\<open>for k, v := range m\<close> may yield the entries of
  \<open>m\<close>, each key once.
\<close>

type_synonym kv = "string \<times> Datatableproperty"

definition range_of :: "sdkProps \<Rightarrow> kv list \<Rightarrow> bool" where
  "range_of m kvs \<longleftrightarrow> distinct (map fst kvs) \<and> map_of kvs = m"

definition defaultOrder :: int where
  "defaultOrder = 0"

text \<open>The first loop of \<^verbatim>\<open>flattenDatatableProperties\<close> (lines 350-356).\<close>

fun withDefaultOrder :: "kv \<Rightarrow> kv" where
  "withDefaultOrder (k, v) =
     (if DisplayOrder v = None then (k, v\<lparr>DisplayOrder := Some defaultOrder\<rparr>) else (k, v))"

definition propList :: "kv list \<Rightarrow> kv list" where
  "propList kvs = map withDefaultOrder kvs"

text \<open>
  \<^verbatim>\<open>sort.SliceStable\<close> of the Go library: a stable sort by a \<^verbatim>\<open>less\<close> function, here as
  the insertion sort the library runs on short slices. An element is placed before the
  first element of the sorted rest that is not less than it.
\<close>

fun insertStable :: "('a \<Rightarrow> 'a \<Rightarrow> bool) \<Rightarrow> 'a \<Rightarrow> 'a list \<Rightarrow> 'a list" where
  "insertStable lt x [] = [x]"
| "insertStable lt x (y # ys) =
     (if lt y x then y # insertStable lt x ys else x # y # ys)"

definition SliceStable :: "('a \<Rightarrow> 'a \<Rightarrow> bool) \<Rightarrow> 'a list \<Rightarrow> 'a list" where
  "SliceStable lt xs = foldr (insertStable lt) xs []"

text \<open>The comparison of line 360; both pointers are set by the loop before.\<close>

definition lessDisplayOrder :: "kv \<Rightarrow> kv \<Rightarrow> bool" where
  "lessDisplayOrder a b \<longleftrightarrow> the (DisplayOrder (snd a)) < the (DisplayOrder (snd b))"

text \<open>The body of the second loop (lines 363-377).\<close>

fun flattenProp :: "externals \<Rightarrow> kv \<Rightarrow> propMap" where
  "flattenProp E (k, v) =
     \<lparr>pm_name = Some k, pm_type = VarType v, pm_title = Title v,
      pm_default = map_option (interfaceToString E) (Default v)\<rparr>"

definition flattenDatatableProperties :: "externals \<Rightarrow> kv list \<Rightarrow> propMap list" where
  "flattenDatatableProperties E kvs =
     map (flattenProp E) (SliceStable lessDisplayOrder (propList kvs))"

section \<open>Retrying\<close>

text \<open>
  \<^verbatim>\<open>*resource.RetryError\<close> of the plugin SDK, as \<^verbatim>\<open>resource.RetryableError\<close> and
  \<^verbatim>\<open>resource.NonRetryableError\<close> build it, with the message of the error it wraps.
\<close>

datatype RetryError = RetryableError string | NonRetryableError string

text \<open>
  \<^verbatim>\<open>diag.Diagnostics\<close>: nil, one error with its summary, or the report that a retry loop
  ran out of time.
\<close>

datatype Diagnostics = NoDiag | ErrDiag string | TimeoutDiag

text \<open>A \<^verbatim>\<open>time.Duration\<close> counts nanoseconds.\<close>

definition Second :: int where
  "Second = 1000000000"

text \<open>
  What one call of the REST API gave back: the payload pointer, the response pointer and
  the error (its message), as the three results of an SDK call.
\<close>

type_synonym 'a apiResult = "'a option \<times> APIResponse option \<times> string option"

text \<open>
  Modelled from the spec: \<^verbatim>\<open>isStatus404\<close> is defined in another file of the provider.
  The spec speaks of errors "retried on transient 404s": the response carries status 404.
\<close>

definition isStatus404 :: "APIResponse option \<Rightarrow> bool" where
  "isStatus404 resp = (case resp of None \<Rightarrow> False | Some r \<Rightarrow> StatusCode r = 404)"

text \<open>
  Modelled from the spec: \<^verbatim>\<open>withRetries\<close> is defined in another file of the provider.
  The spec has it as a "bounded-retry wrapper", a "simple timed
  retry-until-success/timeout loop" with "no cancellation beyond the retry deadline".
  The third argument lists the attempts the loop can make, each with the time elapsed when
  it would start and what the API answers then. An attempt is made only before the
  deadline; a nil result ends the loop with success, a non-retryable error ends it with
  that error, a retryable error leads to the next attempt. A list that is used up ends
  the loop as the deadline does.
\<close>

fun withRetries ::
  "int \<Rightarrow> ('r \<Rightarrow> ResourceData \<Rightarrow> (RetryError option \<times> ResourceData) run) \<Rightarrow>
   (int \<times> 'r) list \<Rightarrow> ResourceData \<Rightarrow> (Diagnostics \<times> ResourceData) run" where
  "withRetries timeout method [] d = Returns (TimeoutDiag, d)"
| "withRetries timeout method ((t, r) # rest) d =
     (if timeout \<le> t then Returns (TimeoutDiag, d)
      else case method r d of
             Panics \<Rightarrow> Panics
           | Returns (None, d') \<Rightarrow> Returns (NoDiag, d')
           | Returns (Some (NonRetryableError e), d') \<Rightarrow> Returns (ErrDiag e, d')
           | Returns (Some (RetryableError e), d') \<Rightarrow> withRetries timeout method rest d')"

text \<open>
  Modelled from the spec: \<^verbatim>\<open>withRetriesForRead\<close> is defined in another file of the
  provider. The spec knows one bounded-retry wrapper "reused across handlers".
\<close>

definition withRetriesForRead ::
  "int \<Rightarrow> ResourceData \<Rightarrow> ('r \<Rightarrow> ResourceData \<Rightarrow> (RetryError option \<times> ResourceData) run) \<Rightarrow>
   (int \<times> 'r) list \<Rightarrow> (Diagnostics \<times> ResourceData) run" where
  "withRetriesForRead timeout d method attempts = withRetries timeout method attempts d"

section \<open>The station data source\<close>

text \<open>
  The function literal of lines 33-45, given what \<^verbatim>\<open>GetStations\<close> returned
  (\<^verbatim>\<open>stations, _, getErr\<close>).
\<close>

definition dataSourceStationRead_attempt ::
  "Stationentitylisting apiResult \<Rightarrow> ResourceData \<Rightarrow> (RetryError option \<times> ResourceData) run" where
  "dataSourceStationRead_attempt r d =
     (case r of (stations, _, getErr) \<Rightarrow>
      case getErr of
        Some e \<Rightarrow> Returns (Some (NonRetryableError (''Error requesting station '' @ e)), d)
      | None \<Rightarrow>
          (case stations of
             None \<Rightarrow> Panics
           | Some listing \<Rightarrow>
               (case Entities listing of
                  None \<Rightarrow> Returns (Some (RetryableError ''No stations found''), d)
                | Some [] \<Rightarrow> Returns (Some (RetryableError ''No stations found''), d)
                | Some (station # _) \<Rightarrow>
                    (case Id_st station of
                       None \<Rightarrow> Panics
                     | Some i \<Rightarrow> Returns (None, d\<lparr>rd_id := i\<rparr>)))))"

definition dataSourceStationRead ::
  "ResourceData \<Rightarrow> (int \<times> Stationentitylisting apiResult) list \<Rightarrow> (Diagnostics \<times> ResourceData) run" where
  "dataSourceStationRead d attempts =
     withRetries (15 * Second) dataSourceStationRead_attempt attempts d"

section \<open>The datatable resource\<close>

text \<open>
  \<^verbatim>\<open>sdkGetArchitectDatatable\<close> and \<^verbatim>\<open>sdkPutOrPostArchitectDatatable\<close>, given what
  \<^verbatim>\<open>CallAPI\<close> returned (\<^verbatim>\<open>response, err\<close>). Both treat it alike; the request they build
  (path, headers, query) plays no part below. Reading \<^verbatim>\<open>response.Error\<close> of a nil
  response panics.
\<close>

definition sdkCall :: "externals \<Rightarrow> APIResponse option \<times> string option \<Rightarrow> Datatable apiResult run" where
  "sdkCall E c =
     (case c of (response, err) \<Rightarrow>
      case err of
        Some e \<Rightarrow> Returns (None, response, Some e)
      | None \<Rightarrow>
          (case response of
             None \<Rightarrow> Panics
           | Some r \<Rightarrow>
               if Error_resp r \<noteq> None then Returns (None, response, Some (ErrorMessage r))
               else (case Unmarshal E (RawBody r) of
                       (successPayload, err') \<Rightarrow> Returns (successPayload, response, err'))))"

definition sdkGetArchitectDatatable ::
  "externals \<Rightarrow> APIResponse option \<times> string option \<Rightarrow> Datatable apiResult run" where
  "sdkGetArchitectDatatable E c = sdkCall E c"

definition sdkPutOrPostArchitectDatatable ::
  "externals \<Rightarrow> string \<Rightarrow> Datatable \<Rightarrow> APIResponse option \<times> string option \<Rightarrow> Datatable apiResult run" where
  "sdkPutOrPostArchitectDatatable E method body c = sdkCall E c"

text \<open>
  The function literal of lines 164-190, given what \<^verbatim>\<open>CallAPI\<close> returned to
  \<^verbatim>\<open>sdkGetArchitectDatatable\<close>.
\<close>

definition readArchitectDatatable_attempt ::
  "externals \<Rightarrow> APIResponse option \<times> string option \<Rightarrow> ResourceData \<Rightarrow>
   (RetryError option \<times> ResourceData) run" where
  "readArchitectDatatable_attempt E c d =
     (case sdkGetArchitectDatatable E c of
        Panics \<Rightarrow> Panics
      | Returns (datatable, resp, getErr) \<Rightarrow>
          (case getErr of
             Some e \<Rightarrow>
               if isStatus404 resp
               then Returns (Some (RetryableError (''Failed to read datatable '' @ rd_id d @ '': '' @ e)), d)
               else Returns (Some (NonRetryableError (''Failed to read datatable '' @ rd_id d @ '': '' @ e)), d)
           | None \<Rightarrow>
               (case datatable of None \<Rightarrow> Panics | Some dt \<Rightarrow>
                case Name dt of None \<Rightarrow> Panics | Some name \<Rightarrow>
                case Division dt of None \<Rightarrow> Panics | Some division \<Rightarrow>
                case Id_div division of None \<Rightarrow> Panics | Some divisionId \<Rightarrow>
                  Returns (None,
                    d\<lparr>rd_name := name,
                      rd_division_id := Some divisionId,
                      rd_description := Description dt,
                      rd_properties :=
                        (case Schema_dt dt of
                           None \<Rightarrow> None
                         | Some schema \<Rightarrow>
                             (case Properties schema of
                                None \<Rightarrow> None
                              | Some properties \<Rightarrow>
                                  Some (flattenDatatableProperties E (mapRange E properties))))\<rparr>))))"

definition readArchitectDatatable ::
  "externals \<Rightarrow> ResourceData \<Rightarrow> (int \<times> APIResponse option \<times> string option) list \<Rightarrow>
   (Diagnostics \<times> ResourceData) run" where
  "readArchitectDatatable E d attempts =
     withRetriesForRead (30 * Second) d (readArchitectDatatable_attempt E) attempts"

text \<open>
  The \<^verbatim>\<open>Datatable\<close> that create and update send (lines 134-145 and 209-221). Both
  handlers end in \<^verbatim>\<open>readArchitectDatatable\<close>; update sleeps five seconds before, and
  the times of the attempts count from the start of the read.
\<close>

definition requestBody :: "string option \<Rightarrow> ResourceData \<Rightarrow> Jsonschemadocument \<Rightarrow> Datatable" where
  "requestBody ident d schema =
     \<lparr>Id_dt = ident, Name = Some (rd_name d),
      Description = (if get_string (rd_description d) \<noteq> [] then Some (get_string (rd_description d)) else None),
      Division = (if get_string (rd_division_id d) \<noteq> []
                  then Some \<lparr>Id_div = Some (get_string (rd_division_id d))\<rparr> else None),
      Schema_dt = Some schema\<rparr>"

definition createArchitectDatatable ::
  "externals \<Rightarrow> ResourceData \<Rightarrow> APIResponse option \<times> string option \<Rightarrow>
   (int \<times> APIResponse option \<times> string option) list \<Rightarrow> (Diagnostics \<times> ResourceData) run" where
  "createArchitectDatatable E d post gets =
     (case buildSdkDatatableSchema E d of
        Inl Panic \<Rightarrow> Panics
      | Inl (Diag diagErr) \<Rightarrow> Returns (ErrDiag diagErr, d)
      | Inr schema \<Rightarrow>
          (case sdkPutOrPostArchitectDatatable E ''POST'' (requestBody None d schema) post of
             Panics \<Rightarrow> Panics
           | Returns (table, _, Some err) \<Rightarrow>
               Returns (ErrDiag (''Failed to create datatable '' @ rd_name d @ '': '' @ err), d)
           | Returns (table, _, None) \<Rightarrow>
               (case table of None \<Rightarrow> Panics | Some t \<Rightarrow>
                case Id_dt t of None \<Rightarrow> Panics | Some i \<Rightarrow>
                  readArchitectDatatable E (d\<lparr>rd_id := i\<rparr>) gets)))"

definition updateArchitectDatatable ::
  "externals \<Rightarrow> ResourceData \<Rightarrow> APIResponse option \<times> string option \<Rightarrow>
   (int \<times> APIResponse option \<times> string option) list \<Rightarrow> (Diagnostics \<times> ResourceData) run" where
  "updateArchitectDatatable E d put gets =
     (case buildSdkDatatableSchema E d of
        Inl Panic \<Rightarrow> Panics
      | Inl (Diag diagErr) \<Rightarrow> Returns (ErrDiag diagErr, d)
      | Inr schema \<Rightarrow>
          (case sdkPutOrPostArchitectDatatable E ''PUT'' (requestBody (Some (rd_id d)) d schema) put of
             Panics \<Rightarrow> Panics
           | Returns (_, _, Some err) \<Rightarrow>
               Returns (ErrDiag (''Failed to update datatable '' @ rd_name d @ '': '' @ err), d)
           | Returns (_, _, None) \<Rightarrow> readArchitectDatatable E d gets))"

text \<open>
  The function literal of lines 245-256, given what \<^verbatim>\<open>GetFlowsDatatable\<close> returned
  (\<^verbatim>\<open>_, resp, err\<close>).
\<close>

definition deleteArchitectDatatable_attempt ::
  "Datatable apiResult \<Rightarrow> ResourceData \<Rightarrow> (RetryError option \<times> ResourceData) run" where
  "deleteArchitectDatatable_attempt r d =
     (case r of (_, resp, err) \<Rightarrow>
      case err of
        Some e \<Rightarrow>
          if isStatus404 resp then Returns (None, d)
          else Returns (Some (NonRetryableError
                 (''Error deleting datatable row '' @ rd_name d @ '': '' @ e)), d)
      | None \<Rightarrow>
          Returns (Some (RetryableError (''Datatable row '' @ rd_name d @ '' still exists'')), d))"

text \<open>
  \<^verbatim>\<open>deleteArchitectDatatable\<close>, given what \<^verbatim>\<open>DeleteFlowsDatatable\<close> returned
  (\<^verbatim>\<open>_, err\<close>) and the answers to the polling.
\<close>

definition deleteArchitectDatatable ::
  "ResourceData \<Rightarrow> APIResponse option \<times> string option \<Rightarrow> (int \<times> Datatable apiResult) list \<Rightarrow>
   (Diagnostics \<times> ResourceData) run" where
  "deleteArchitectDatatable d del gets =
     (case del of (_, err) \<Rightarrow>
      case err of
        Some e \<Rightarrow> Returns (ErrDiag (''Failed to delete datatable '' @ rd_name d @ '': '' @ e), d)
      | None \<Rightarrow> withRetries (30 * Second) deleteArchitectDatatable_attempt gets d)"

section \<open>Notions used in the statements\<close>

text \<open>The display order that the flattener sorts by: a nil \<^verbatim>\<open>DisplayOrder\<close> counts as 0.\<close>

definition effectiveOrder :: "Datatableproperty \<Rightarrow> int" where
  "effectiveOrder v = (case DisplayOrder v of None \<Rightarrow> 0 | Some n \<Rightarrow> n)"

definition orderKey :: "kv \<Rightarrow> int" where
  "orderKey e = the (DisplayOrder (snd e))"

text \<open>The entries that the loop of \<^verbatim>\<open>buildSdkDatatableProperties\<close> stores, in order.\<close>

fun sdkEntries :: "externals \<Rightarrow> nat \<Rightarrow> propMap list \<Rightarrow> kv list" where
  "sdkEntries E i [] = []"
| "sdkEntries E i (p # ps) =
     (case sdkProp E i p of Inl _ \<Rightarrow> [] | Inr e \<Rightarrow> e # sdkEntries E (Suc i) ps)"

text \<open>
  A configured property whose default, if the key is present and the string is not empty,
  is the string that \<^verbatim>\<open>interfaceToString\<close> gives for the value that the parser of the
  declared type reads from it (for \<open>string\<close>, for the string itself).
\<close>

definition canonicalDefault :: "externals \<Rightarrow> propMap \<Rightarrow> bool" where
  "canonicalDefault E p =
     (case pm_default p of
        None \<Rightarrow> True
      | Some def \<Rightarrow>
          def = [] \<or>
          pm_type p = Some ''boolean'' \<and>
            (case ParseBool E def of Inl _ \<Rightarrow> False | Inr b \<Rightarrow> interfaceToString E (VBool b) = def) \<or>
          pm_type p = Some ''string'' \<and> interfaceToString E (VString def) = def \<or>
          pm_type p = Some ''integer'' \<and>
            (case Atoi E def of Inl _ \<Rightarrow> False | Inr i \<Rightarrow> interfaceToString E (VInt i) = def) \<or>
          pm_type p = Some ''number'' \<and>
            (case ParseFloat E def of Inl _ \<Rightarrow> False | Inr w \<Rightarrow> interfaceToString E (VFloat64 w) = def))"

text \<open>A configured property read back: an empty default string is an absent key.\<close>

definition omitEmptyDefault :: "propMap \<Rightarrow> propMap" where
  "omitEmptyDefault p = (if pm_default p = Some [] then p\<lparr>pm_default := None\<rparr> else p)"

text \<open>
  A configured property that the resource schema admits: a name, one of the four types, and
  a default that is absent, empty, or that the parser of the declared type accepts:
  \<^verbatim>\<open>ParseBool\<close> for \<open>boolean\<close>, \<^verbatim>\<open>Atoi\<close> for \<open>integer\<close>, \<^verbatim>\<open>ParseFloat\<close> for \<open>number\<close>;
  any string for \<open>string\<close>.
\<close>

definition schemaValid :: "externals \<Rightarrow> propMap \<Rightarrow> bool" where
  "schemaValid E p \<longleftrightarrow>
     pm_name p \<noteq> None \<and>
     pm_type p \<in> {Some ''boolean'', Some ''string'', Some ''integer'', Some ''number''} \<and>
     (case pm_default p of
        None \<Rightarrow> True
      | Some def \<Rightarrow>
          def = [] \<or>
          (pm_type p = Some ''boolean'' \<longrightarrow> \<not> isl (ParseBool E def)) \<and>
          (pm_type p = Some ''integer'' \<longrightarrow> \<not> isl (Atoi E def)) \<and>
          (pm_type p = Some ''number'' \<longrightarrow> \<not> isl (ParseFloat E def)))"

section \<open>An instance of the parameters\<close>

text \<open>
  For running the embedding on concrete inputs. \<^verbatim>\<open>ParseBool\<close> accepts the twelve
  spellings Go documents; \<^verbatim>\<open>Atoi\<close> reads an optional sign and decimal digits into a 64-bit
  \<^verbatim>\<open>int\<close>; \<^verbatim>\<open>ParseFloat\<close>, \<^verbatim>\<open>Unmarshal\<close> and the iteration order are finite tables;
  \<^verbatim>\<open>interfaceToString\<close> prints as \<^verbatim>\<open>fmt\<close>'s \<^verbatim>\<open>%v\<close> does on the values of these tables.
\<close>

definition syntaxError :: "string \<Rightarrow> string \<Rightarrow> string" where
  "syntaxError fn str =
     ''strconv.'' @ fn @ '': parsing '' @ [CHR 0x22] @ str @ [CHR 0x22] @ '': invalid syntax''"

definition rangeError :: "string \<Rightarrow> string \<Rightarrow> string" where
  "rangeError fn str =
     ''strconv.'' @ fn @ '': parsing '' @ [CHR 0x22] @ str @ [CHR 0x22] @ '': value out of range''"

definition sample_ParseBool :: "string \<Rightarrow> string + bool" where
  "sample_ParseBool str =
     (if str \<in> set [''1'', ''t'', ''T'', ''true'', ''TRUE'', ''True''] then Inr True
      else if str \<in> set [''0'', ''f'', ''F'', ''false'', ''FALSE'', ''False''] then Inr False
      else Inl (syntaxError ''ParseBool'' str))"

definition digitVal :: "char \<Rightarrow> nat option" where
  "digitVal c = map_of (zip ''0123456789'' [0, 1, 2, 3, 4, 5, 6, 7, 8, 9]) c"

fun digits :: "nat \<Rightarrow> string \<Rightarrow> nat option" where
  "digits acc [] = Some acc"
| "digits acc (c # cs) =
     (case digitVal c of None \<Rightarrow> None | Some v \<Rightarrow> digits (10 * acc + v) cs)"

definition sample_Atoi :: "string \<Rightarrow> string + int" where
  "sample_Atoi s =
     (let (neg, body) =
            (case s of
               [] \<Rightarrow> (False, s)
             | c # r \<Rightarrow> if c = CHR ''-'' then (True, r)
                        else if c = CHR ''+'' then (False, r) else (False, s))
      in if body = [] then Inl (syntaxError ''Atoi'' s)
         else case digits 0 body of
                None \<Rightarrow> Inl (syntaxError ''Atoi'' s)
              | Some n \<Rightarrow>
                  let v = (if neg then - int n else int n)
                  in if - (2 ^ 63) \<le> v \<and> v < 2 ^ 63 then Inr v
                     else Inl (rangeError ''Atoi'' s))"

definition sample_floats :: "(string \<times> 64 word) list" where
  "sample_floats =
     [(''0.25'', 0x3FD0000000000000), (''1.5'', 0x3FF8000000000000), (''2'', 0x4000000000000000)]"

definition sample_ParseFloat :: "string \<Rightarrow> string + 64 word" where
  "sample_ParseFloat s =
     (case map_of sample_floats s of
        None \<Rightarrow> Inl (syntaxError ''ParseFloat'' s)
      | Some w \<Rightarrow> Inr w)"

fun decimal :: "nat \<Rightarrow> string" where
  "decimal n =
     (if n < 10 then [''0123456789'' ! n]
      else decimal (n div 10) @ [''0123456789'' ! (n mod 10)])"

definition sample_interfaceToString :: "goValue \<Rightarrow> string" where
  "sample_interfaceToString v =
     (case v of
        VBool b \<Rightarrow> (if b then ''true'' else ''false'')
      | VString s \<Rightarrow> s
      | VInt n \<Rightarrow> (if n < 0 then CHR ''-'' # decimal (nat (- n)) else decimal (nat n))
      | VFloat64 w \<Rightarrow>
          (case map_of (map (\<lambda>(s, w). (w, s)) sample_floats) w of
             None \<Rightarrow> ''NaN''
           | Some s \<Rightarrow> s))"

definition sample_keys :: "string list" where
  "sample_keys = [''key'', ''a'', ''b'', ''c'']"

definition sample_mapRange :: "sdkProps \<Rightarrow> kv list" where
  "sample_mapRange m =
     concat (map (\<lambda>k. case m k of None \<Rightarrow> [] | Some v \<Rightarrow> [(k, v)]) sample_keys)"

definition sample_Unmarshal :: "string \<Rightarrow> Datatable option \<times> string option" where
  \<open>sample_Unmarshal body =
     (if body = ''{"id":"42","name":"t","division":{"id":"home"}}'' then
        (Some \<lparr>Id_dt = Some ''42'', Name = Some ''t'', Description = None,
               Division = Some \<lparr>Id_div = Some ''home''\<rparr>, Schema_dt = None\<rparr>, None)
      else if body = ''{"id":"42","name":"t"}'' then
        (Some \<lparr>Id_dt = Some ''42'', Name = Some ''t'', Description = None,
               Division = None, Schema_dt = None\<rparr>, None)
      else if body = ''null'' then (None, None)
      else (None, Some ''unexpected end of JSON input''))\<close>

definition sampleExternals :: externals where
  "sampleExternals =
     \<lparr>ParseBool = sample_ParseBool, Atoi = sample_Atoi, ParseFloat = sample_ParseFloat,
      Unmarshal = sample_Unmarshal, mapRange = sample_mapRange,
      interfaceToString = sample_interfaceToString\<rparr>"

section \<open>Concrete inputs\<close>

text \<open>A property of the payload with a given display order and no default.\<close>

definition plainProp :: "int option \<Rightarrow> Datatableproperty" where
  "plainProp n = \<lparr>Id_prop = None, VarType = Some ''string'', Title = None, Default = None,
                  DisplayOrder = n\<rparr>"

text \<open>A configured property without a title.\<close>

definition configured :: "string \<Rightarrow> string \<Rightarrow> string option \<Rightarrow> propMap" where
  "configured n ty dflt = \<lparr>pm_name = Some n, pm_type = Some ty, pm_title = None, pm_default = dflt\<rparr>"

text \<open>The resource data of a datatable named \<open>t\<close> with the given properties.\<close>

definition resourceWith :: "propMap list \<Rightarrow> ResourceData" where
  "resourceWith cfg = \<lparr>rd_id = [], rd_name = ''t'', rd_division_id = None, rd_description = None,
                        rd_properties = Some cfg\<rparr>"

section \<open>Properties of the flattener\<close>

lemma insertStable_insort_key:
  "insertStable (\<lambda>a b. f a < f b) x ys = insort_key f x ys"
  by (induction ys) (auto simp: not_less)

lemma SliceStable_sort_key:
  "SliceStable (\<lambda>a b. (f a :: 'b::linorder) < f b) xs = sort_key f xs"
  by (induction xs) (simp_all add: SliceStable_def insertStable_insort_key)

lemma lessDisplayOrder_orderKey: "lessDisplayOrder = (\<lambda>a b. orderKey a < orderKey b)"
  by (intro ext) (simp add: lessDisplayOrder_def orderKey_def)

lemma sorted_propList: "SliceStable lessDisplayOrder xs = sort_key orderKey xs"
  unfolding lessDisplayOrder_orderKey by (rule SliceStable_sort_key)

lemma fst_withDefaultOrder: "fst (withDefaultOrder e) = fst e"
  by (cases e) simp

lemma orderKey_withDefaultOrder: "orderKey (withDefaultOrder e) = effectiveOrder (snd e)"
  by (cases e) (auto simp: orderKey_def effectiveOrder_def defaultOrder_def)

lemma DisplayOrder_propList: "e \<in> set (propList kvs) \<Longrightarrow> DisplayOrder (snd e) \<noteq> None"
  by (auto simp: propList_def)

lemma map_fst_propList: "map fst (propList kvs) = map fst kvs"
  by (simp add: propList_def fst_withDefaultOrder)

lemma range_of_lookup: "range_of m kvs \<Longrightarrow> (k, v) \<in> set kvs \<Longrightarrow> m k = Some v"
  by (auto simp: range_of_def)

lemma orderKey_propList:
  assumes "range_of m kvs" "e \<in> set (propList kvs)"
  shows "orderKey e = effectiveOrder (the (m (fst e)))"
proof -
  from assms(2) obtain k v where kv: "(k, v) \<in> set kvs" "e = withDefaultOrder (k, v)"
    by (auto simp: propList_def)
  with assms(1) have "m k = Some v" by (simp add: range_of_lookup)
  with kv show ?thesis
    by (simp only: orderKey_withDefaultOrder fst_withDefaultOrder) simp
qed

lemma pm_name_flattenProp: "pm_name (flattenProp E e) = Some (fst e)"
  by (cases e) simp

lemma names_flatten:
  "map pm_name (flattenDatatableProperties E kvs) =
     map (Some \<circ> fst) (sort_key orderKey (propList kvs))"
  by (simp add: flattenDatatableProperties_def sorted_propList pm_name_flattenProp)

lemma mset_names_sorted:
  "mset (map fst (sort_key orderKey (propList kvs))) = mset (map fst kvs)"
proof -
  have "mset (map fst (sort_key orderKey (propList kvs))) = mset (map fst (propList kvs))"
    by simp
  then show ?thesis by (simp only: map_fst_propList)
qed

lemma flatten_sorted:
  assumes r: "range_of m kvs"
  shows "sorted (map (\<lambda>p. effectiveOrder (the (m (the (pm_name p)))))
                  (flattenDatatableProperties E kvs))"
proof -
  let ?S = "sort_key orderKey (propList kvs)"
  let ?g = "\<lambda>n. effectiveOrder (the (m n))"
  have key: "orderKey e = ?g (fst e)" if "e \<in> set ?S" for e
    using orderKey_propList [OF r] that by simp
  have "map (\<lambda>p. ?g (the (pm_name p))) (flattenDatatableProperties E kvs) = map (\<lambda>e. ?g (fst e)) ?S"
    by (simp add: flattenDatatableProperties_def sorted_propList pm_name_flattenProp)
  also have "\<dots> = map orderKey ?S"
    by (rule map_cong) (simp_all add: key)
  finally show ?thesis by simp
qed

lemma flatten_stable:
  assumes r: "range_of m kvs"
  shows "filter (\<lambda>n. effectiveOrder (the (m n)) = k)
           (map (the \<circ> pm_name) (flattenDatatableProperties E kvs)) =
         filter (\<lambda>n. effectiveOrder (the (m n)) = k) (map fst kvs)"
proof -
  let ?S = "sort_key orderKey (propList kvs)"
  let ?g = "\<lambda>n. effectiveOrder (the (m n))"
  have key: "orderKey e = ?g (fst e)" if "e \<in> set (propList kvs)" for e
    using orderKey_propList [OF r] that by simp
  have names: "map (the \<circ> pm_name) (flattenDatatableProperties E kvs) = map fst ?S"
    by (simp add: flattenDatatableProperties_def sorted_propList pm_name_flattenProp)
  have "filter (\<lambda>n. ?g n = k) (map fst ?S) = map fst (filter (\<lambda>e. ?g (fst e) = k) ?S)"
    by (simp add: filter_map comp_def)
  also have "filter (\<lambda>e. ?g (fst e) = k) ?S = filter (\<lambda>e. orderKey e = k) ?S"
    by (rule filter_cong) (simp_all add: key)
  also have "\<dots> = filter (\<lambda>e. orderKey e = k) (propList kvs)"
    by (rule sort_key_stable)
  also have "\<dots> = filter (\<lambda>e. ?g (fst e) = k) (propList kvs)"
    by (rule filter_cong) (simp_all add: key)
  also have "map fst \<dots> = filter (\<lambda>n. ?g n = k) (map fst (propList kvs))"
    by (simp add: filter_map comp_def)
  finally show ?thesis
    by (simp add: names map_fst_propList)
qed

lemma flatten_names:
  assumes r: "range_of m kvs"
  shows "distinct (map pm_name (flattenDatatableProperties E kvs))"
    and "set (map pm_name (flattenDatatableProperties E kvs)) = Some ` dom m"
    and "length (flattenDatatableProperties E kvs) = card (dom m)"
proof -
  let ?S = "sort_key orderKey (propList kvs)"
  have d: "distinct (map fst kvs)"
    using r by (simp add: range_of_def)
  have "dom (map_of kvs) = fst ` set kvs" by (rule dom_map_of_conv_image_fst)
  then have dm: "dom m = set (map fst kvs)"
    using r by (simp add: range_of_def)
  have ms: "mset (map fst ?S) = mset (map fst kvs)" by (rule mset_names_sorted)
  have dS: "distinct (map fst ?S)"
    using d ms by (metis mset_eq_imp_distinct_iff)
  have sS: "set (map fst ?S) = set (map fst kvs)"
    using ms by (rule mset_eq_setD)
  show "distinct (map pm_name (flattenDatatableProperties E kvs))"
    unfolding names_flatten using dS by (simp add: distinct_map comp_def inj_on_def)
  have "set (map (Some \<circ> fst) ?S) = Some ` set (map fst ?S)"
    by (simp only: map_map [symmetric] set_map)
  then show "set (map pm_name (flattenDatatableProperties E kvs)) = Some ` dom m"
    unfolding names_flatten dm sS .
  have "length (flattenDatatableProperties E kvs) = length kvs"
    by (simp add: flattenDatatableProperties_def sorted_propList propList_def)
  also have "\<dots> = card (dom m)"
    unfolding dm using d by (metis distinct_card length_map)
  finally show "length (flattenDatatableProperties E kvs) = card (dom m)" .
qed

section \<open>The loop of the builder\<close>

lemma convertDefault_Inl: "convertDefault E ty n s = Inl f \<Longrightarrow> \<exists>e. f = Diag e"
  by (auto simp: convertDefault_def split: if_splits sum.splits)

lemma convertDefault_Inr:
  assumes "convertDefault E ty n def = Inr x"
  shows "ty = ''boolean'' \<Longrightarrow> \<exists>b. ParseBool E def = Inr b \<and> x = VBool b"
    and "ty = ''string'' \<Longrightarrow> x = VString def"
    and "ty = ''integer'' \<Longrightarrow> \<exists>i. Atoi E def = Inr i \<and> x = VInt i"
    and "ty = ''number'' \<Longrightarrow> \<exists>w. ParseFloat E def = Inr w \<and> x = VFloat64 w"
    and "ty \<in> {''boolean'', ''string'', ''integer'', ''number''}"
  using assms by (auto simp: convertDefault_def split: if_splits sum.splits)

lemma sdkProp_Inl:
  "sdkProp E i p = Inl f \<Longrightarrow> pm_name p \<noteq> None \<Longrightarrow> pm_type p \<noteq> None \<Longrightarrow> \<exists>e. f = Diag e"
  by (auto simp: sdkProp_def Let_def split: option.splits if_splits sum.splits
           dest: convertDefault_Inl)

lemma sdkProp_Inr:
  assumes "sdkProp E i p = Inr (k, v)"
  shows "pm_name p = Some k" and "pm_type p \<noteq> None" and "VarType v = pm_type p"
    and "Title v = pm_title p" and "DisplayOrder v = Some (int i)"
    and "Id_prop v = Some (propIdPrefix @ k)"
  using assms
  by (auto simp: sdkProp_def Let_def split: option.splits if_splits sum.splits)

lemma sdkProp_Inr_default:
  assumes "sdkProp E i p = Inr (k, v)" "pm_type p = Some ty"
  shows "pm_default p = None \<or> pm_default p = Some [] \<Longrightarrow> Default v = None"
    and "pm_default p = Some def \<Longrightarrow> def \<noteq> [] \<Longrightarrow>
           \<exists>x. convertDefault E ty k def = Inr x \<and> Default v = Some x"
  using assms
  by (auto simp: sdkProp_def Let_def split: option.splits if_splits sum.splits)

lemma sdkProp_default_fails:
  assumes "pm_name p = Some n" "pm_type p = Some ty" "pm_default p = Some def" "def \<noteq> []"
    "convertDefault E ty n def = Inl f"
  shows "sdkProp E i p = Inl f"
  using assms by (simp add: sdkProp_def)

lemma loop_Inl:
  "sdkProps_loop E i ps m = Inl f \<Longrightarrow> \<exists>j < length ps. sdkProp E (i + j) (ps ! j) = Inl f"
proof (induction ps arbitrary: i m)
  case Nil
  then show ?case by simp
next
  case (Cons p ps)
  show ?case
  proof (cases "sdkProp E i p")
    case (Inl e)
    with Cons.prems have "sdkProp E (i + 0) ((p # ps) ! 0) = Inl f" by simp
    then show ?thesis by blast
  next
    case (Inr e)
    obtain k v where e: "e = (k, v)" by (cases e)
    with Inr Cons.prems have "sdkProps_loop E (Suc i) ps (m(k \<mapsto> v)) = Inl f" by simp
    from Cons.IH [OF this] obtain j where "j < length ps" "sdkProp E (Suc i + j) (ps ! j) = Inl f"
      by blast
    then have "Suc j < length (p # ps)" "sdkProp E (i + Suc j) ((p # ps) ! Suc j) = Inl f"
      by simp_all
    then show ?thesis by blast
  qed
qed

lemma loop_fails:
  "j < length ps \<Longrightarrow> sdkProp E (i + j) (ps ! j) = Inl f \<Longrightarrow> \<exists>f'. sdkProps_loop E i ps m = Inl f'"
proof (induction ps arbitrary: i j m)
  case Nil
  then show ?case by simp
next
  case (Cons p ps)
  show ?case
  proof (cases "sdkProp E i p")
    case (Inl e)
    then show ?thesis by simp
  next
    case (Inr e)
    obtain k v where e: "e = (k, v)" by (cases e)
    from Inr Cons.prems obtain j' where j: "j = Suc j'" by (cases j) auto
    with Cons.prems have "j' < length ps" "sdkProp E (Suc i + j') (ps ! j') = Inl f" by simp_all
    from Cons.IH [OF this] obtain f' where "sdkProps_loop E (Suc i) ps (m(k \<mapsto> v)) = Inl f'"
      by blast
    with Inr e show ?thesis by simp
  qed
qed

lemma loop_step:
  assumes "sdkProps_loop E i (p # ps) m = Inr m'"
  obtains k v where "sdkProp E i p = Inr (k, v)"
    and "sdkProps_loop E (Suc i) ps (m(k \<mapsto> v)) = Inr m'"
proof (cases "sdkProp E i p")
  case (Inl e)
  with assms show ?thesis by simp
next
  case (Inr e)
  obtain k v where e: "e = (k, v)" by (cases e)
  with Inr assms have "sdkProps_loop E (Suc i) ps (m(k \<mapsto> v)) = Inr m'" by simp
  with Inr e that show ?thesis by blast
qed

lemma loop_Inr:
  "sdkProps_loop E i ps m = Inr m' \<Longrightarrow>
     m' = m ++ map_of (rev (sdkEntries E i ps)) \<and> length (sdkEntries E i ps) = length ps"
proof (induction ps arbitrary: i m)
  case Nil
  then show ?case by simp
next
  case (Cons p ps)
  from Cons.prems obtain k v where kv: "sdkProp E i p = Inr (k, v)"
    and rest: "sdkProps_loop E (Suc i) ps (m(k \<mapsto> v)) = Inr m'"
    by (rule loop_step)
  note IH = Cons.IH [OF rest]
  have m': "m' = m(k \<mapsto> v) ++ map_of (rev (sdkEntries E (Suc i) ps))"
    by (rule conjunct1 [OF IH])
  have len: "length (sdkEntries E (Suc i) ps) = length ps"
    by (rule conjunct2 [OF IH])
  have "m ++ map_of (rev ((k, v) # sdkEntries E (Suc i) ps)) =
        (m ++ map_of [(k, v)]) ++ map_of (rev (sdkEntries E (Suc i) ps))"
    by (simp only: rev.simps map_of_append map_add_assoc)
  also have "m ++ map_of [(k, v)] = m(k \<mapsto> v)" by simp
  finally show ?case using kv m' len by simp
qed

lemma loop_entries:
  assumes "sdkProps_loop E i ps m = Inr m'" "j < length ps"
  shows "sdkProp E (i + j) (ps ! j) = Inr (sdkEntries E i ps ! j)"
  using assms
proof (induction ps arbitrary: i j m)
  case Nil
  then show ?case by simp
next
  case (Cons p ps)
  from Cons.prems(1) obtain k v where kv: "sdkProp E i p = Inr (k, v)"
    and rest: "sdkProps_loop E (Suc i) ps (m(k \<mapsto> v)) = Inr m'"
    by (rule loop_step)
  show ?case
  proof (cases j)
    case 0
    with kv show ?thesis by simp
  next
    case (Suc j')
    with Cons.prems(2) have "j' < length ps" by simp
    from Cons.IH [OF rest this] kv Suc show ?thesis by simp
  qed
qed

lemma map_of_rev_last:
  assumes "j < length xs" "xs ! j = (k, v)" "\<forall>j'. j < j' \<and> j' < length xs \<longrightarrow> fst (xs ! j') \<noteq> k"
  shows "map_of (rev xs) k = Some v"
proof -
  have xs: "xs = take j xs @ (k, v) # drop (Suc j) xs"
    using assms(1,2) by (metis id_take_nth_drop)
  have notin: "k \<notin> fst ` set (drop (Suc j) xs)"
  proof
    assume "k \<in> fst ` set (drop (Suc j) xs)"
    then obtain e where "e \<in> set (drop (Suc j) xs)" "fst e = k" by auto
    then obtain l where l: "l < length (drop (Suc j) xs)" "drop (Suc j) xs ! l = e"
      by (auto simp: in_set_conv_nth)
    then have "j < Suc j + l \<and> Suc j + l < length xs" "fst (xs ! (Suc j + l)) = k"
      using \<open>fst e = k\<close> by auto
    with assms(3) show False by blast
  qed
  then have none: "map_of (rev (drop (Suc j) xs)) k = None"
    by (simp add: map_of_eq_None_iff)
  have "rev xs = rev (drop (Suc j) xs) @ (k, v) # rev (take j xs)"
    by (subst xs) simp
  then have "map_of (rev xs) = map_of ((k, v) # rev (take j xs)) ++ map_of (rev (drop (Suc j) xs))"
    by (simp only: map_of_append)
  then show ?thesis using none by (simp add: map_add_def)
qed

lemma build_Some:
  "buildSdkDatatableProperties E d = Inr (Some m) \<Longrightarrow> rd_properties d = Some cfg \<Longrightarrow>
     sdkProps_loop E 0 cfg Map.empty = Inr m"
  by (auto simp: buildSdkDatatableProperties_def split: option.splits sum.splits)

lemma build_entries:
  assumes "buildSdkDatatableProperties E d = Inr (Some m)" "rd_properties d = Some cfg"
  shows "m = map_of (rev (sdkEntries E 0 cfg))" and "length (sdkEntries E 0 cfg) = length cfg"
    and "j < length cfg \<Longrightarrow> sdkProp E j (cfg ! j) = Inr (sdkEntries E 0 cfg ! j)"
  using loop_Inr [OF build_Some [OF assms]] loop_entries [OF build_Some [OF assms], of j]
  by simp_all

lemma entries_fst:
  assumes "buildSdkDatatableProperties E d = Inr (Some m)" "rd_properties d = Some cfg"
    "j < length cfg"
  shows "pm_name (cfg ! j) = Some (fst (sdkEntries E 0 cfg ! j))"
  using build_entries(3) [OF assms] sdkProp_Inr(1) [of E j "cfg ! j"]
  by (cases "sdkEntries E 0 cfg ! j") simp

lemma build_stored:
  assumes b: "buildSdkDatatableProperties E d = Inr (Some m)" and cfg: "rd_properties d = Some cfg"
    and j: "j < length cfg"
    and last: "\<forall>j'. j < j' \<and> j' < length cfg \<longrightarrow> pm_name (cfg ! j') \<noteq> pm_name (cfg ! j)"
  shows "\<exists>n v. sdkProp E j (cfg ! j) = Inr (n, v) \<and> m n = Some v"
proof -
  let ?L = "sdkEntries E 0 cfg"
  obtain n v where e: "?L ! j = (n, v)" by (cases "?L ! j")
  have len: "length ?L = length cfg" by (rule build_entries(2) [OF b cfg])
  have sp: "sdkProp E j (cfg ! j) = Inr (n, v)"
    using build_entries(3) [OF b cfg j] e by simp
  have nm: "pm_name (cfg ! j) = Some n"
    using entries_fst [OF b cfg j] e by simp
  have "\<forall>j'. j < j' \<and> j' < length ?L \<longrightarrow> fst (?L ! j') \<noteq> n"
  proof (intro allI impI)
    fix j' assume a: "j < j' \<and> j' < length ?L"
    then have "pm_name (cfg ! j') \<noteq> pm_name (cfg ! j)" using last len by simp
    moreover have "pm_name (cfg ! j') = Some (fst (?L ! j'))"
      using entries_fst [OF b cfg] a len by simp
    ultimately show "fst (?L ! j') \<noteq> n" using nm by auto
  qed
  then have "map_of (rev ?L) n = Some v"
    using map_of_rev_last [of j ?L n v] j len e by simp
  then have "m n = Some v" using build_entries(1) [OF b cfg] by simp
  with sp show ?thesis by blast
qed

lemma convertDefault_fails:
  assumes "ty = ''boolean'' \<and> isl (ParseBool E def) \<or>
           ty = ''integer'' \<and> isl (Atoi E def) \<or>
           ty = ''number'' \<and> isl (ParseFloat E def)"
  shows "\<exists>f. convertDefault E ty n def = Inl f"
  using assms
proof (elim disjE conjE)
  assume "ty = ''boolean''" "isl (ParseBool E def)"
  then show ?thesis by (cases "ParseBool E def") (simp_all add: convertDefault_def)
next
  assume "ty = ''integer''" "isl (Atoi E def)"
  then show ?thesis by (cases "Atoi E def") (simp_all add: convertDefault_def)
next
  assume "ty = ''number''" "isl (ParseFloat E def)"
  then show ?thesis by (cases "ParseFloat E def") (simp_all add: convertDefault_def)
qed

lemma build_fails:
  assumes cfg: "rd_properties d = Some cfg"
    and wf: "\<forall>q \<in> set cfg. pm_name q \<noteq> None \<and> pm_type q \<noteq> None"
    and p: "p \<in> set cfg" "pm_default p = Some def" "def \<noteq> []"
    and bad: "pm_type p = Some ''boolean'' \<and> isl (ParseBool E def) \<or>
              pm_type p = Some ''integer'' \<and> isl (Atoi E def) \<or>
              pm_type p = Some ''number'' \<and> isl (ParseFloat E def)"
  shows "\<exists>e. buildSdkDatatableProperties E d = Inl (Diag e)"
proof -
  from wf p(1) obtain n ty where nt: "pm_name p = Some n" "pm_type p = Some ty" by auto
  from bad nt have "\<exists>f. convertDefault E ty n def = Inl f"
    by (intro convertDefault_fails) simp
  then obtain f where "convertDefault E ty n def = Inl f" ..
  from p(1) obtain j where j: "j < length cfg" "cfg ! j = p" by (auto simp: in_set_conv_nth)
  have "sdkProp E (0 + j) (cfg ! j) = Inl f"
    using sdkProp_default_fails [OF nt p(2,3) \<open>convertDefault E ty n def = Inl f\<close>] j by simp
  from loop_fails [OF j(1) this] obtain f' where f': "sdkProps_loop E 0 cfg Map.empty = Inl f'"
    by blast
  from loop_Inl [OF f'] obtain l where l: "l < length cfg" "sdkProp E l (cfg ! l) = Inl f'"
    by auto
  then have "cfg ! l \<in> set cfg" by simp
  with wf have "pm_name (cfg ! l) \<noteq> None" "pm_type (cfg ! l) \<noteq> None" by auto
  from sdkProp_Inl [OF l(2) this] obtain e where "f' = Diag e" ..
  with f' cfg show ?thesis by (simp add: buildSdkDatatableProperties_def)
qed

lemma convertDefault_succeeds:
  assumes ty: "ty \<in> {''boolean'', ''string'', ''integer'', ''number''}"
    and pb: "ty = ''boolean'' \<longrightarrow> \<not> isl (ParseBool E def)"
    and pi: "ty = ''integer'' \<longrightarrow> \<not> isl (Atoi E def)"
    and pf: "ty = ''number'' \<longrightarrow> \<not> isl (ParseFloat E def)"
  shows "\<exists>x. convertDefault E ty n def = Inr x"
proof -
  from ty consider "ty = ''boolean''" | "ty = ''string''" | "ty = ''integer''" | "ty = ''number''"
    by blast
  then show ?thesis
  proof cases
    case 1
    with pb show ?thesis by (cases "ParseBool E def") (simp_all add: convertDefault_def)
  next
    case 2
    then show ?thesis by (simp add: convertDefault_def)
  next
    case 3
    with pi show ?thesis by (cases "Atoi E def") (simp_all add: convertDefault_def)
  next
    case 4
    with pf show ?thesis by (cases "ParseFloat E def") (simp_all add: convertDefault_def)
  qed
qed

lemma sdkProp_valid:
  assumes "schemaValid E p"
  shows "\<exists>e. sdkProp E i p = Inr e"
proof -
  from assms obtain n ty where nt: "pm_name p = Some n" "pm_type p = Some ty"
    and ty: "ty \<in> {''boolean'', ''string'', ''integer'', ''number''}"
    by (auto simp: schemaValid_def)
  show ?thesis
  proof (cases "pm_default p")
    case None
    with nt show ?thesis by (simp add: sdkProp_def)
  next
    case (Some def)
    show ?thesis
    proof (cases "def = []")
      case True
      with Some nt show ?thesis by (simp add: sdkProp_def)
    next
      case False
      with assms Some nt
      have "ty = ''boolean'' \<longrightarrow> \<not> isl (ParseBool E def)"
        "ty = ''integer'' \<longrightarrow> \<not> isl (Atoi E def)"
        "ty = ''number'' \<longrightarrow> \<not> isl (ParseFloat E def)"
        by (simp_all add: schemaValid_def)
      from convertDefault_succeeds [OF ty this, of n]
      obtain x where "convertDefault E ty n def = Inr x" ..
      with Some nt False show ?thesis by (simp add: sdkProp_def)
    qed
  qed
qed

lemma valid_builds:
  assumes cfg: "rd_properties d = Some cfg" and v: "\<forall>p \<in> set cfg. schemaValid E p"
  shows "\<exists>m. buildSdkDatatableProperties E d = Inr (Some m)"
proof (cases "sdkProps_loop E 0 cfg Map.empty")
  case (Inl f)
  from loop_Inl [OF this] obtain j where j: "j < length cfg" "sdkProp E (0 + j) (cfg ! j) = Inl f"
    by blast
  then have "schemaValid E (cfg ! j)" using v by simp
  from sdkProp_valid [OF this, of "0 + j"] j(2) show ?thesis by auto
next
  case (Inr m)
  with cfg show ?thesis by (simp add: buildSdkDatatableProperties_def)
qed

lemma distinct_later:
  assumes "distinct (map f xs)" "j < length xs"
  shows "\<forall>j'. j < j' \<and> j' < length xs \<longrightarrow> f (xs ! j') \<noteq> f (xs ! j)"
proof (intro allI impI)
  fix j' assume a: "j < j' \<and> j' < length xs"
  have "(map f xs ! j' = map f xs ! j) = (j' = j)"
    by (rule nth_eq_iff_index_eq) (use a assms in simp_all)
  with a have "map f xs ! j' \<noteq> map f xs ! j" by simp
  with a assms(2) show "f (xs ! j') \<noteq> f (xs ! j)" by simp
qed

lemma stored_default:
  assumes sp: "sdkProp E j p = Inr (n, v)" and ty: "pm_type p = Some ty"
    and d: "pm_default p = Some def \<and> def \<noteq> []"
  shows "(ty = ''boolean'' \<longrightarrow> (\<exists>b. ParseBool E def = Inr b \<and> Default v = Some (VBool b))) \<and>
         (ty = ''string'' \<longrightarrow> Default v = Some (VString def)) \<and>
         (ty = ''integer'' \<longrightarrow> (\<exists>i. Atoi E def = Inr i \<and> Default v = Some (VInt i))) \<and>
         (ty = ''number'' \<longrightarrow> (\<exists>w. ParseFloat E def = Inr w \<and> Default v = Some (VFloat64 w))) \<and>
         ty \<in> {''boolean'', ''string'', ''integer'', ''number''}"
proof -
  from sdkProp_Inr_default(2) [OF sp ty] d
  obtain x where x: "convertDefault E ty n def = Inr x" "Default v = Some x" by blast
  note c = convertDefault_Inr [OF x(1)]
  show ?thesis
  proof (intro conjI impI)
    assume "ty = ''boolean''" from c(1) [OF this] x(2)
    show "\<exists>b. ParseBool E def = Inr b \<and> Default v = Some (VBool b)" by simp
  next
    assume "ty = ''string''" from c(2) [OF this] x(2)
    show "Default v = Some (VString def)" by simp
  next
    assume "ty = ''integer''" from c(3) [OF this] x(2)
    show "\<exists>i. Atoi E def = Inr i \<and> Default v = Some (VInt i)" by simp
  next
    assume "ty = ''number''" from c(4) [OF this] x(2)
    show "\<exists>w. ParseFloat E def = Inr w \<and> Default v = Some (VFloat64 w)" by simp
  next
    show "ty \<in> {''boolean'', ''string'', ''integer'', ''number''}" by (rule c(5))
  qed
qed

text \<open>
  Claim C7. In the schema-to-payload mapping a property's default string is converted to
  its declared type: by \<^verbatim>\<open>ParseBool\<close> for \<open>boolean\<close>, \<^verbatim>\<open>Atoi\<close> for \<open>integer\<close>,
  \<^verbatim>\<open>ParseFloat\<close> for \<open>number\<close>, and kept as it is for \<open>string\<close>; an empty or absent
  default is left out of the payload. A configuration that the schema admits, each default
  being accepted by the parser of its type, yields a property map; in a map that is built,
  the entry under a property's name, which is that of the last configured property of this
  name, holds the converted default. If the non-empty default of some property fails to
  parse, \<^verbatim>\<open>buildSdkDatatableProperties\<close> returns error diagnostics and no property map.
\<close>

theorem default_conversion:
  assumes cfg: "rd_properties d = Some cfg"
  shows "((\<forall>p \<in> set cfg. schemaValid E p) \<longrightarrow>
            (\<exists>m. buildSdkDatatableProperties E d = Inr (Some m))) \<and>
         (\<forall>m j. buildSdkDatatableProperties E d = Inr (Some m) \<and> j < length cfg \<and>
            (\<forall>j'. j < j' \<and> j' < length cfg \<longrightarrow> pm_name (cfg ! j') \<noteq> pm_name (cfg ! j)) \<longrightarrow>
            (\<exists>n ty v. pm_name (cfg ! j) = Some n \<and> pm_type (cfg ! j) = Some ty \<and> m n = Some v \<and>
               (pm_default (cfg ! j) = None \<or> pm_default (cfg ! j) = Some [] \<longrightarrow> Default v = None) \<and>
               (\<forall>def. pm_default (cfg ! j) = Some def \<and> def \<noteq> [] \<longrightarrow>
                  (ty = ''boolean'' \<longrightarrow> (\<exists>b. ParseBool E def = Inr b \<and> Default v = Some (VBool b))) \<and>
                  (ty = ''string'' \<longrightarrow> Default v = Some (VString def)) \<and>
                  (ty = ''integer'' \<longrightarrow> (\<exists>i. Atoi E def = Inr i \<and> Default v = Some (VInt i))) \<and>
                  (ty = ''number'' \<longrightarrow> (\<exists>w. ParseFloat E def = Inr w \<and> Default v = Some (VFloat64 w))) \<and>
                  ty \<in> {''boolean'', ''string'', ''integer'', ''number''}))) \<and>
         (\<forall>p def. (\<forall>q \<in> set cfg. pm_name q \<noteq> None \<and> pm_type q \<noteq> None) \<and> p \<in> set cfg \<and>
            pm_default p = Some def \<and> def \<noteq> [] \<and>
            (pm_type p = Some ''boolean'' \<and> isl (ParseBool E def) \<or>
             pm_type p = Some ''integer'' \<and> isl (Atoi E def) \<or>
             pm_type p = Some ''number'' \<and> isl (ParseFloat E def)) \<longrightarrow>
            (\<exists>e. buildSdkDatatableProperties E d = Inl (Diag e)))"
proof (intro conjI)
  show "(\<forall>p \<in> set cfg. schemaValid E p) \<longrightarrow>
          (\<exists>m. buildSdkDatatableProperties E d = Inr (Some m))"
    using valid_builds [OF cfg] by blast
next
  show "\<forall>p def. (\<forall>q \<in> set cfg. pm_name q \<noteq> None \<and> pm_type q \<noteq> None) \<and> p \<in> set cfg \<and>
            pm_default p = Some def \<and> def \<noteq> [] \<and>
            (pm_type p = Some ''boolean'' \<and> isl (ParseBool E def) \<or>
             pm_type p = Some ''integer'' \<and> isl (Atoi E def) \<or>
             pm_type p = Some ''number'' \<and> isl (ParseFloat E def)) \<longrightarrow>
            (\<exists>e. buildSdkDatatableProperties E d = Inl (Diag e))"
  proof (rule allI, rule allI, rule impI)
    fix p def
    assume a: "(\<forall>q \<in> set cfg. pm_name q \<noteq> None \<and> pm_type q \<noteq> None) \<and> p \<in> set cfg \<and>
            pm_default p = Some def \<and> def \<noteq> [] \<and>
            (pm_type p = Some ''boolean'' \<and> isl (ParseBool E def) \<or>
             pm_type p = Some ''integer'' \<and> isl (Atoi E def) \<or>
             pm_type p = Some ''number'' \<and> isl (ParseFloat E def))"
    show "\<exists>e. buildSdkDatatableProperties E d = Inl (Diag e)"
      by (rule build_fails [OF cfg, of p "def" E]) (use a in simp_all)
  qed
next
  show "\<forall>m j. buildSdkDatatableProperties E d = Inr (Some m) \<and> j < length cfg \<and>
            (\<forall>j'. j < j' \<and> j' < length cfg \<longrightarrow> pm_name (cfg ! j') \<noteq> pm_name (cfg ! j)) \<longrightarrow>
            (\<exists>n ty v. pm_name (cfg ! j) = Some n \<and> pm_type (cfg ! j) = Some ty \<and> m n = Some v \<and>
               (pm_default (cfg ! j) = None \<or> pm_default (cfg ! j) = Some [] \<longrightarrow> Default v = None) \<and>
               (\<forall>def. pm_default (cfg ! j) = Some def \<and> def \<noteq> [] \<longrightarrow>
                  (ty = ''boolean'' \<longrightarrow> (\<exists>b. ParseBool E def = Inr b \<and> Default v = Some (VBool b))) \<and>
                  (ty = ''string'' \<longrightarrow> Default v = Some (VString def)) \<and>
                  (ty = ''integer'' \<longrightarrow> (\<exists>i. Atoi E def = Inr i \<and> Default v = Some (VInt i))) \<and>
                  (ty = ''number'' \<longrightarrow> (\<exists>w. ParseFloat E def = Inr w \<and> Default v = Some (VFloat64 w))) \<and>
                  ty \<in> {''boolean'', ''string'', ''integer'', ''number''}))"
  proof (rule allI, rule allI, rule impI)
    fix m j
    assume a: "buildSdkDatatableProperties E d = Inr (Some m) \<and> j < length cfg \<and>
            (\<forall>j'. j < j' \<and> j' < length cfg \<longrightarrow> pm_name (cfg ! j') \<noteq> pm_name (cfg ! j))"
    have "\<exists>n v. sdkProp E j (cfg ! j) = Inr (n, v) \<and> m n = Some v"
      by (rule build_stored [OF _ cfg]) (use a in simp_all)
    then obtain n v where sp: "sdkProp E j (cfg ! j) = Inr (n, v)" and mn: "m n = Some v"
      by blast
    from sdkProp_Inr(1,2) [OF sp] obtain ty
      where nt: "pm_name (cfg ! j) = Some n" "pm_type (cfg ! j) = Some ty"
      by auto
    have none: "pm_default (cfg ! j) = None \<or> pm_default (cfg ! j) = Some [] \<longrightarrow> Default v = None"
      using sdkProp_Inr_default(1) [OF sp nt(2)] by blast
    show "\<exists>n ty v. pm_name (cfg ! j) = Some n \<and> pm_type (cfg ! j) = Some ty \<and> m n = Some v \<and>
               (pm_default (cfg ! j) = None \<or> pm_default (cfg ! j) = Some [] \<longrightarrow> Default v = None) \<and>
               (\<forall>def. pm_default (cfg ! j) = Some def \<and> def \<noteq> [] \<longrightarrow>
                  (ty = ''boolean'' \<longrightarrow> (\<exists>b. ParseBool E def = Inr b \<and> Default v = Some (VBool b))) \<and>
                  (ty = ''string'' \<longrightarrow> Default v = Some (VString def)) \<and>
                  (ty = ''integer'' \<longrightarrow> (\<exists>i. Atoi E def = Inr i \<and> Default v = Some (VInt i))) \<and>
                  (ty = ''number'' \<longrightarrow> (\<exists>w. ParseFloat E def = Inr w \<and> Default v = Some (VFloat64 w))) \<and>
                  ty \<in> {''boolean'', ''string'', ''integer'', ''number''})"
    proof (rule exI [of _ n], rule exI [of _ ty], rule exI [of _ v], intro conjI allI)
      fix def
      show "pm_default (cfg ! j) = Some def \<and> def \<noteq> [] \<longrightarrow>
                  (ty = ''boolean'' \<longrightarrow> (\<exists>b. ParseBool E def = Inr b \<and> Default v = Some (VBool b))) \<and>
                  (ty = ''string'' \<longrightarrow> Default v = Some (VString def)) \<and>
                  (ty = ''integer'' \<longrightarrow> (\<exists>i. Atoi E def = Inr i \<and> Default v = Some (VInt i))) \<and>
                  (ty = ''number'' \<longrightarrow> (\<exists>w. ParseFloat E def = Inr w \<and> Default v = Some (VFloat64 w))) \<and>
                  ty \<in> {''boolean'', ''string'', ''integer'', ''number''}"
        by (rule impI) (rule stored_default [OF sp nt(2)])
    qed (rule nt mn none)+
  qed
qed

section \<open>Independence of the iteration order\<close>

lemma range_of_mset:
  assumes "range_of m kvs1" "range_of m kvs2"
  shows "mset kvs1 = mset kvs2"
proof -
  have d1: "distinct (map fst kvs1)" and d2: "distinct (map fst kvs2)"
    and eq: "map_of kvs1 = map_of kvs2"
    using assms by (simp_all add: range_of_def)
  have "set kvs1 = set kvs2"
    using map_of_inject_set [OF d1 d2] eq by simp
  moreover have "distinct kvs1" "distinct kvs2"
    using d1 d2 by (simp_all add: distinct_map)
  ultimately show ?thesis by (simp add: set_eq_iff_mset_eq_distinct)
qed

lemma map_orderKey_propList: "map orderKey (propList kvs) = map (effectiveOrder \<circ> snd) kvs"
  by (simp add: propList_def orderKey_withDefaultOrder)

text \<open>
  Claim C10, as amended. For every properties map whose display orders are pairwise distinct
  once a nil \<^verbatim>\<open>DisplayOrder\<close> is read as 0, \<^verbatim>\<open>flattenDatatableProperties\<close> returns the
  same list for any two orders in which the run time ranges over the map.
\<close>

theorem flatten_order_independent:
  assumes r1: "range_of m kvs1" and r2: "range_of m kvs2"
    and d: "distinct (map (effectiveOrder \<circ> snd) kvs1)"
  shows "flattenDatatableProperties E kvs1 = flattenDatatableProperties E kvs2"
proof -
  have ms: "mset (propList kvs1) = mset (propList kvs2)"
    using range_of_mset [OF r1 r2] by (simp add: propList_def)
  have "distinct (map orderKey (propList kvs1))"
    using d by (simp only: map_orderKey_propList)
  then have "inj_on orderKey (set (propList kvs1))"
    by (simp add: distinct_map)
  with ms have "sort_key orderKey (propList kvs1) = sort_key orderKey (propList kvs2)"
    by (rule sort_key_eq_sort_key)
  then show ?thesis
    by (simp add: flattenDatatableProperties_def sorted_propList)
qed

section \<open>The round trip\<close>

lemma entries_names:
  assumes b: "buildSdkDatatableProperties E d = Inr (Some m)" and cfg: "rd_properties d = Some cfg"
  shows "map pm_name cfg = map (Some \<circ> fst) (sdkEntries E 0 cfg)"
proof (rule nth_equalityI)
  show "length (map pm_name cfg) = length (map (Some \<circ> fst) (sdkEntries E 0 cfg))"
    using build_entries(2) [OF b cfg] by simp
next
  fix j assume "j < length (map pm_name cfg)"
  then have j: "j < length cfg" by simp
  then have "j < length (sdkEntries E 0 cfg)" using build_entries(2) [OF b cfg] by simp
  then show "map pm_name cfg ! j = map (Some \<circ> fst) (sdkEntries E 0 cfg) ! j"
    using entries_fst [OF b cfg j] j by simp
qed

lemma entries_orderKey:
  assumes b: "buildSdkDatatableProperties E d = Inr (Some m)" and cfg: "rd_properties d = Some cfg"
  shows "map orderKey (sdkEntries E 0 cfg) = map int [0..<length cfg]"
proof (rule nth_equalityI)
  show "length (map orderKey (sdkEntries E 0 cfg)) = length (map int [0..<length cfg])"
    using build_entries(2) [OF b cfg] by simp
next
  fix j assume "j < length (map orderKey (sdkEntries E 0 cfg))"
  then have j: "j < length cfg" using build_entries(2) [OF b cfg] by simp
  obtain k v where e: "sdkEntries E 0 cfg ! j = (k, v)" by (cases "sdkEntries E 0 cfg ! j")
  have "sdkProp E j (cfg ! j) = Inr (k, v)"
    using build_entries(3) [OF b cfg j] e by simp
  then have "DisplayOrder v = Some (int j)" by (rule sdkProp_Inr(5))
  then show "map orderKey (sdkEntries E 0 cfg) ! j = map int [0..<length cfg] ! j"
    using j e build_entries(2) [OF b cfg] by (simp add: orderKey_def)
qed

lemma flattenProp_entry:
  assumes sp: "sdkProp E j p = Inr (k, v)" and c: "canonicalDefault E p"
  shows "flattenProp E (k, v) = omitEmptyDefault p"
proof -
  from sdkProp_Inr(1,2) [OF sp] obtain ty where nt: "pm_name p = Some k" "pm_type p = Some ty"
    by auto
  have vt: "VarType v = pm_type p" "Title v = pm_title p"
    using sdkProp_Inr(3,4) [OF sp] by simp_all
  have dflt: "map_option (interfaceToString E) (Default v) = pm_default (omitEmptyDefault p)"
  proof (cases "pm_default p")
    case None
    then show ?thesis using sdkProp_Inr_default(1) [OF sp nt(2)] by (simp add: omitEmptyDefault_def)
  next
    case (Some def)
    show ?thesis
    proof (cases "def = []")
      case True
      with Some show ?thesis using sdkProp_Inr_default(1) [OF sp nt(2)] by (simp add: omitEmptyDefault_def)
    next
      case False
      from sdkProp_Inr_default(2) [OF sp nt(2) Some False]
      obtain x where x: "convertDefault E ty k def = Inr x" "Default v = Some x" by blast
      note cv = convertDefault_Inr [OF x(1)]
      from c Some False nt
      consider "ty = ''boolean''" "\<exists>b. ParseBool E def = Inr b \<and> interfaceToString E (VBool b) = def"
        | "ty = ''string''" "interfaceToString E (VString def) = def"
        | "ty = ''integer''" "\<exists>i. Atoi E def = Inr i \<and> interfaceToString E (VInt i) = def"
        | "ty = ''number''" "\<exists>w. ParseFloat E def = Inr w \<and> interfaceToString E (VFloat64 w) = def"
        by (auto simp: canonicalDefault_def split: sum.splits)
      then have "interfaceToString E x = def"
      proof cases
        case 1
        with cv(1) show ?thesis by auto
      next
        case 2
        with cv(2) show ?thesis by simp
      next
        case 3
        with cv(3) show ?thesis by auto
      next
        case 4
        with cv(4) show ?thesis by auto
      qed
      with Some False x(2) show ?thesis by (simp add: omitEmptyDefault_def)
    qed
  qed
  have "flattenProp E (k, v) =
        \<lparr>pm_name = pm_name (omitEmptyDefault p), pm_type = pm_type (omitEmptyDefault p),
         pm_title = pm_title (omitEmptyDefault p), pm_default = pm_default (omitEmptyDefault p)\<rparr>"
    using nt vt dflt by (simp add: omitEmptyDefault_def)
  then show ?thesis by simp
qed

lemma entries_flatten:
  assumes b: "buildSdkDatatableProperties E d = Inr (Some m)" and cfg: "rd_properties d = Some cfg"
    and c: "\<forall>p \<in> set cfg. canonicalDefault E p"
  shows "map (flattenProp E) (sdkEntries E 0 cfg) = map omitEmptyDefault cfg"
proof (rule nth_equalityI)
  show "length (map (flattenProp E) (sdkEntries E 0 cfg)) = length (map omitEmptyDefault cfg)"
    using build_entries(2) [OF b cfg] by simp
next
  fix j assume "j < length (map (flattenProp E) (sdkEntries E 0 cfg))"
  then have j: "j < length cfg" using build_entries(2) [OF b cfg] by simp
  obtain k v where e: "sdkEntries E 0 cfg ! j = (k, v)" by (cases "sdkEntries E 0 cfg ! j")
  have sp: "sdkProp E j (cfg ! j) = Inr (k, v)"
    using build_entries(3) [OF b cfg j] e by simp
  have "canonicalDefault E (cfg ! j)" using c j by simp
  from flattenProp_entry [OF sp this]
  show "map (flattenProp E) (sdkEntries E 0 cfg) ! j = map omitEmptyDefault cfg ! j"
    using j e build_entries(2) [OF b cfg] by simp
qed

lemma round_trip_entries:
  assumes cfg: "rd_properties d = Some cfg"
    and b: "buildSdkDatatableProperties E d = Inr (Some m)"
    and names: "distinct (map pm_name cfg)"
    and c: "\<forall>p \<in> set cfg. canonicalDefault E p"
    and r: "range_of m kvs"
  shows "flattenDatatableProperties E kvs = map omitEmptyDefault cfg"
proof -
  let ?L = "sdkEntries E 0 cfg"
  have "distinct (map (Some \<circ> fst) ?L)"
    using names entries_names [OF b cfg] by simp
  then have dL: "distinct (map fst ?L)"
    by (simp add: distinct_map comp_def inj_on_def)
  have "map_of (rev ?L) = map_of ?L"
    using map_of_inject_set [of "rev ?L" ?L] dL by (simp add: rev_map [symmetric])
  then have "range_of m ?L"
    using build_entries(1) [OF b cfg] dL by (simp add: range_of_def)
  then have ms: "mset kvs = mset ?L" by (rule range_of_mset [OF r])
  have ok: "map orderKey ?L = map int [0..<length cfg]" by (rule entries_orderKey [OF b cfg])
  have keep: "withDefaultOrder e = e" if "e \<in> set ?L" for e
  proof -
    from that obtain j where j: "j < length ?L" "?L ! j = e" by (auto simp: in_set_conv_nth)
    then have "orderKey e = int j \<and> j < length cfg"
      using ok build_entries(2) [OF b cfg] by (metis length_map nth_map nth_upt add_0)
    obtain k v where e: "e = (k, v)" by (cases e)
    have "sdkProp E j (cfg ! j) = Inr (k, v)"
      using build_entries(3) [OF b cfg, of j] j e build_entries(2) [OF b cfg] by simp
    then have "DisplayOrder v = Some (int j)" by (rule sdkProp_Inr(5))
    with e show ?thesis by simp
  qed
  have "propList ?L = ?L"
    unfolding propList_def by (rule map_idI) (rule keep)
  then have msP: "mset (propList kvs) = mset ?L"
    using ms by (metis propList_def mset_map)
  have sorted: "sorted (map orderKey ?L)"
    unfolding ok by (simp add: sorted_map strict_sorted_iff [symmetric] sorted_wrt_map)
  have "distinct (map orderKey ?L)"
    unfolding ok by (simp add: distinct_map inj_on_def)
  then have "inj_on orderKey (set ?L)" by (simp add: distinct_map)
  then have "inj_on orderKey (set (propList kvs))"
    using msP by (metis mset_eq_setD)
  from sort_key_inj_key_eq [OF msP this sorted]
  have "sort_key orderKey (propList kvs) = ?L" .
  then show ?thesis
    by (simp add: flattenDatatableProperties_def sorted_propList entries_flatten [OF b cfg c])
qed

text \<open>
  Claim C1, as amended. For every properties list that the resource schema admits, each
  default being accepted by the parser of its type, whose names are pairwise distinct and
  whose non-empty defaults are the strings that \<^verbatim>\<open>interfaceToString\<close> gives for the
  values the parsers read from them, the SDK property map is built, and flattening it, in
  whatever order the run time ranges over it, yields the entries of the list (name, type,
  title, default) in the order of the configuration, an empty default string being read
  back as an absent default.
\<close>

theorem flatten_build_round_trip:
  assumes cfg: "rd_properties d = Some cfg"
    and v: "\<forall>p \<in> set cfg. schemaValid E p"
    and names: "distinct (map pm_name cfg)"
    and c: "\<forall>p \<in> set cfg. canonicalDefault E p"
  shows "(\<exists>m. buildSdkDatatableProperties E d = Inr (Some m)) \<and>
         (\<forall>m kvs. buildSdkDatatableProperties E d = Inr (Some m) \<and> range_of m kvs \<longrightarrow>
            flattenDatatableProperties E kvs = map omitEmptyDefault cfg)"
  using valid_builds [OF cfg v] round_trip_entries [OF cfg _ names c] by blast

lemma eval_build_dup:
  "buildSdkDatatableProperties sampleExternals
     (resourceWith [configured ''key'' ''string'' None, configured ''key'' ''string'' None]) =
   Inr (Some [''key'' \<mapsto> \<lparr>Id_prop = Some ''/properties/key'', VarType = Some ''string'',
                             Title = None, Default = None, DisplayOrder = Some 1\<rparr>])"
  by (simp add: buildSdkDatatableProperties_def resourceWith_def configured_def sdkProp_def
        propIdPrefix_def)

lemma eval_flatten_1:
  "flattenDatatableProperties sampleExternals
     [(''key'', \<lparr>Id_prop = Some ''/properties/key'', VarType = Some ''string'',
                 Title = None, Default = None, DisplayOrder = Some 1\<rparr>)] =
   [configured ''key'' ''string'' None]"
  by (simp add: flattenDatatableProperties_def propList_def SliceStable_def configured_def)

section \<open>Runs on the concrete inputs\<close>

lemmas eval_defs = buildSdkDatatableProperties_def resourceWith_def configured_def sdkProp_def
  propIdPrefix_def convertDefault_def sampleExternals_def sample_ParseBool_def sample_Atoi_def
  sample_ParseFloat_def sample_floats_def digitVal_def

lemmas flatten_defs = flattenDatatableProperties_def propList_def SliceStable_def
  lessDisplayOrder_def defaultOrder_def sampleExternals_def sample_interfaceToString_def
  sample_floats_def

text \<open>
  Claim C2. For every map of datatable properties, in whatever order the run time ranges
  over it, the list that \<^verbatim>\<open>flattenDatatableProperties\<close> returns is sorted in non-decreasing
  display order, a nil \<^verbatim>\<open>DisplayOrder\<close> counting as 0; entries of equal display order keep
  the relative order they have in the list before the sort; and the list has exactly one
  entry for each key of the map.
\<close>

theorem flatten_sorted_stable_complete:
  assumes "range_of m kvs"
  shows "sorted (map (\<lambda>p. effectiveOrder (the (m (the (pm_name p)))))
                  (flattenDatatableProperties E kvs)) \<and>
         (\<forall>k. filter (\<lambda>n. effectiveOrder (the (m n)) = k)
                 (map (the \<circ> pm_name) (flattenDatatableProperties E kvs)) =
               filter (\<lambda>n. effectiveOrder (the (m n)) = k) (map fst kvs)) \<and>
         distinct (map pm_name (flattenDatatableProperties E kvs)) \<and>
         set (map pm_name (flattenDatatableProperties E kvs)) = Some ` dom m \<and>
         length (flattenDatatableProperties E kvs) = card (dom m)"
  by (intro conjI allI)
     (rule flatten_sorted [OF assms] flatten_stable [OF assms] flatten_names [OF assms])+

theorem flatten_sorted_stable_complete_witness:
  "range_of (map_of [(''a'', plainProp (Some 2)), (''b'', plainProp None), (''c'', plainProp (Some 0))])
     [(''a'', plainProp (Some 2)), (''b'', plainProp None), (''c'', plainProp (Some 0))] \<and>
   map pm_name (flattenDatatableProperties sampleExternals
     [(''a'', plainProp (Some 2)), (''b'', plainProp None), (''c'', plainProp (Some 0))]) =
     [Some ''b'', Some ''c'', Some ''a''] \<and>
   length (flattenDatatableProperties sampleExternals
     [(''a'', plainProp (Some 2)), (''b'', plainProp None), (''c'', plainProp (Some 0))]) =
   card (dom (map_of [(''a'', plainProp (Some 2)), (''b'', plainProp None), (''c'', plainProp (Some 0))]))"
proof -
  let ?K = "[(''a'', plainProp (Some 2)), (''b'', plainProp None), (''c'', plainProp (Some 0))]"
  have r: "range_of (map_of ?K) ?K" by (simp add: range_of_def)
  have n: "map pm_name (flattenDatatableProperties sampleExternals ?K) = [Some ''b'', Some ''c'', Some ''a'']"
    by (simp add: flatten_defs plainProp_def)
  from flatten_sorted_stable_complete [OF r, of sampleExternals]
  have "length (flattenDatatableProperties sampleExternals ?K) = card (dom (map_of ?K))"
    by (elim conjE)
  with r n show ?thesis by (intro conjI)
qed

theorem flatten_nil_order_counterexample:
  "range_of (map_of [(''a'', plainProp None), (''b'', plainProp (Some 0))])
     [(''a'', plainProp None), (''b'', plainProp (Some 0))] \<and>
   range_of (map_of [(''a'', plainProp None), (''b'', plainProp (Some 0))])
     [(''b'', plainProp (Some 0)), (''a'', plainProp None)] \<and>
   distinct (map (DisplayOrder \<circ> snd) [(''a'', plainProp None), (''b'', plainProp (Some 0))]) \<and>
   flattenDatatableProperties sampleExternals [(''a'', plainProp None), (''b'', plainProp (Some 0))] \<noteq>
   flattenDatatableProperties sampleExternals [(''b'', plainProp (Some 0)), (''a'', plainProp None)]"
proof (intro conjI)
  show "range_of (map_of [(''a'', plainProp None), (''b'', plainProp (Some 0))])
     [(''a'', plainProp None), (''b'', plainProp (Some 0))]"
    by (simp add: range_of_def)
  show "range_of (map_of [(''a'', plainProp None), (''b'', plainProp (Some 0))])
     [(''b'', plainProp (Some 0)), (''a'', plainProp None)]"
    by (auto simp: range_of_def fun_eq_iff)
  show "distinct (map (DisplayOrder \<circ> snd) [(''a'', plainProp None), (''b'', plainProp (Some 0))])"
    by (simp add: plainProp_def)
  show "flattenDatatableProperties sampleExternals [(''a'', plainProp None), (''b'', plainProp (Some 0))] \<noteq>
   flattenDatatableProperties sampleExternals [(''b'', plainProp (Some 0)), (''a'', plainProp None)]"
    by (simp add: flatten_defs plainProp_def)
qed

theorem flatten_order_independent_witness:
  "range_of (map_of [(''a'', plainProp (Some 1)), (''b'', plainProp None)])
     [(''a'', plainProp (Some 1)), (''b'', plainProp None)] \<and>
   range_of (map_of [(''a'', plainProp (Some 1)), (''b'', plainProp None)])
     [(''b'', plainProp None), (''a'', plainProp (Some 1))] \<and>
   distinct (map (effectiveOrder \<circ> snd) [(''a'', plainProp (Some 1)), (''b'', plainProp None)]) \<and>
   flattenDatatableProperties sampleExternals [(''a'', plainProp (Some 1)), (''b'', plainProp None)] =
   flattenDatatableProperties sampleExternals [(''b'', plainProp None), (''a'', plainProp (Some 1))]"
proof -
  let ?K1 = "[(''a'', plainProp (Some 1)), (''b'', plainProp None)]"
  let ?K2 = "[(''b'', plainProp None), (''a'', plainProp (Some 1))]"
  have r1: "range_of (map_of ?K1) ?K1" by (simp add: range_of_def)
  have r2: "range_of (map_of ?K1) ?K2" by (auto simp: range_of_def fun_eq_iff)
  have d: "distinct (map (effectiveOrder \<circ> snd) ?K1)"
    by (simp add: effectiveOrder_def plainProp_def)
  from flatten_order_independent [OF r1 r2 d, of sampleExternals] r1 r2 d
  show ?thesis by (intro conjI)
qed



theorem round_trip_counterexample:
  "(schemaValid sampleExternals (configured ''key'' ''string'' None) \<and>
    buildSdkDatatableProperties sampleExternals
      (resourceWith [configured ''key'' ''string'' None, configured ''key'' ''string'' None]) =
    Inr (Some [''key'' \<mapsto> \<lparr>Id_prop = Some ''/properties/key'', VarType = Some ''string'',
                              Title = None, Default = None, DisplayOrder = Some 1\<rparr>]) \<and>
    range_of [''key'' \<mapsto> \<lparr>Id_prop = Some ''/properties/key'', VarType = Some ''string'',
                              Title = None, Default = None, DisplayOrder = Some 1\<rparr>]
      [(''key'', \<lparr>Id_prop = Some ''/properties/key'', VarType = Some ''string'',
                  Title = None, Default = None, DisplayOrder = Some 1\<rparr>)] \<and>
    flattenDatatableProperties sampleExternals
      [(''key'', \<lparr>Id_prop = Some ''/properties/key'', VarType = Some ''string'',
                  Title = None, Default = None, DisplayOrder = Some 1\<rparr>)] \<noteq>
    [configured ''key'' ''string'' None, configured ''key'' ''string'' None]) \<and>
   (schemaValid sampleExternals
      \<lparr>pm_name = Some ''key'', pm_type = Some ''string'', pm_title = Some [], pm_default = Some []\<rparr> \<and>
    buildSdkDatatableProperties sampleExternals
      (resourceWith [\<lparr>pm_name = Some ''key'', pm_type = Some ''string'', pm_title = Some [],
                      pm_default = Some []\<rparr>]) =
    Inr (Some [''key'' \<mapsto> \<lparr>Id_prop = Some ''/properties/key'', VarType = Some ''string'',
                              Title = Some [], Default = None, DisplayOrder = Some 0\<rparr>]) \<and>
    range_of [''key'' \<mapsto> \<lparr>Id_prop = Some ''/properties/key'', VarType = Some ''string'',
                              Title = Some [], Default = None, DisplayOrder = Some 0\<rparr>]
      [(''key'', \<lparr>Id_prop = Some ''/properties/key'', VarType = Some ''string'',
                  Title = Some [], Default = None, DisplayOrder = Some 0\<rparr>)] \<and>
    flattenDatatableProperties sampleExternals
      [(''key'', \<lparr>Id_prop = Some ''/properties/key'', VarType = Some ''string'',
                  Title = Some [], Default = None, DisplayOrder = Some 0\<rparr>)] \<noteq>
    [\<lparr>pm_name = Some ''key'', pm_type = Some ''string'', pm_title = Some [],
      pm_default = Some []\<rparr>]) \<and>
   (schemaValid sampleExternals (configured ''key'' ''boolean'' (Some ''TRUE'')) \<and>
    buildSdkDatatableProperties sampleExternals
      (resourceWith [configured ''key'' ''boolean'' (Some ''TRUE'')]) =
    Inr (Some [''key'' \<mapsto> \<lparr>Id_prop = Some ''/properties/key'', VarType = Some ''boolean'',
                              Title = None, Default = Some (VBool True), DisplayOrder = Some 0\<rparr>]) \<and>
    range_of [''key'' \<mapsto> \<lparr>Id_prop = Some ''/properties/key'', VarType = Some ''boolean'',
                              Title = None, Default = Some (VBool True), DisplayOrder = Some 0\<rparr>]
      [(''key'', \<lparr>Id_prop = Some ''/properties/key'', VarType = Some ''boolean'',
                  Title = None, Default = Some (VBool True), DisplayOrder = Some 0\<rparr>)] \<and>
    flattenDatatableProperties sampleExternals
      [(''key'', \<lparr>Id_prop = Some ''/properties/key'', VarType = Some ''boolean'',
                  Title = None, Default = Some (VBool True), DisplayOrder = Some 0\<rparr>)] \<noteq>
    [configured ''key'' ''boolean'' (Some ''TRUE'')])"
proof (intro conjI)
  show "schemaValid sampleExternals (configured ''key'' ''string'' None)"
    by (simp add: schemaValid_def configured_def)
  show "buildSdkDatatableProperties sampleExternals
      (resourceWith [configured ''key'' ''string'' None, configured ''key'' ''string'' None]) =
    Inr (Some [''key'' \<mapsto> \<lparr>Id_prop = Some ''/properties/key'', VarType = Some ''string'',
                              Title = None, Default = None, DisplayOrder = Some 1\<rparr>])"
    by (rule eval_build_dup)
  show "range_of [''key'' \<mapsto> \<lparr>Id_prop = Some ''/properties/key'', VarType = Some ''string'',
                              Title = None, Default = None, DisplayOrder = Some 1\<rparr>]
      [(''key'', \<lparr>Id_prop = Some ''/properties/key'', VarType = Some ''string'',
                  Title = None, Default = None, DisplayOrder = Some 1\<rparr>)]"
    by (simp add: range_of_def)
  show "flattenDatatableProperties sampleExternals
      [(''key'', \<lparr>Id_prop = Some ''/properties/key'', VarType = Some ''string'',
                  Title = None, Default = None, DisplayOrder = Some 1\<rparr>)] \<noteq>
    [configured ''key'' ''string'' None, configured ''key'' ''string'' None]"
    by (simp add: eval_flatten_1)
  show "schemaValid sampleExternals
      \<lparr>pm_name = Some ''key'', pm_type = Some ''string'', pm_title = Some [], pm_default = Some []\<rparr>"
    by (simp add: schemaValid_def)
  show "buildSdkDatatableProperties sampleExternals
      (resourceWith [\<lparr>pm_name = Some ''key'', pm_type = Some ''string'', pm_title = Some [],
                      pm_default = Some []\<rparr>]) =
    Inr (Some [''key'' \<mapsto> \<lparr>Id_prop = Some ''/properties/key'', VarType = Some ''string'',
                              Title = Some [], Default = None, DisplayOrder = Some 0\<rparr>])"
    by (simp add: eval_defs)
  show "range_of [''key'' \<mapsto> \<lparr>Id_prop = Some ''/properties/key'', VarType = Some ''string'',
                              Title = Some [], Default = None, DisplayOrder = Some 0\<rparr>]
      [(''key'', \<lparr>Id_prop = Some ''/properties/key'', VarType = Some ''string'',
                  Title = Some [], Default = None, DisplayOrder = Some 0\<rparr>)]"
    by (simp add: range_of_def)
  show "flattenDatatableProperties sampleExternals
      [(''key'', \<lparr>Id_prop = Some ''/properties/key'', VarType = Some ''string'',
                  Title = Some [], Default = None, DisplayOrder = Some 0\<rparr>)] \<noteq>
    [\<lparr>pm_name = Some ''key'', pm_type = Some ''string'', pm_title = Some [],
      pm_default = Some []\<rparr>]"
    by (simp add: flatten_defs)
  show "schemaValid sampleExternals (configured ''key'' ''boolean'' (Some ''TRUE''))"
    by (simp add: schemaValid_def configured_def sampleExternals_def sample_ParseBool_def)
  show "buildSdkDatatableProperties sampleExternals
      (resourceWith [configured ''key'' ''boolean'' (Some ''TRUE'')]) =
    Inr (Some [''key'' \<mapsto> \<lparr>Id_prop = Some ''/properties/key'', VarType = Some ''boolean'',
                              Title = None, Default = Some (VBool True), DisplayOrder = Some 0\<rparr>])"
    by (simp add: eval_defs)
  show "range_of [''key'' \<mapsto> \<lparr>Id_prop = Some ''/properties/key'', VarType = Some ''boolean'',
                              Title = None, Default = Some (VBool True), DisplayOrder = Some 0\<rparr>]
      [(''key'', \<lparr>Id_prop = Some ''/properties/key'', VarType = Some ''boolean'',
                  Title = None, Default = Some (VBool True), DisplayOrder = Some 0\<rparr>)]"
    by (simp add: range_of_def)
  show "flattenDatatableProperties sampleExternals
      [(''key'', \<lparr>Id_prop = Some ''/properties/key'', VarType = Some ''boolean'',
                  Title = None, Default = Some (VBool True), DisplayOrder = Some 0\<rparr>)] \<noteq>
    [configured ''key'' ''boolean'' (Some ''TRUE'')]"
    by (simp add: flatten_defs configured_def)
qed

theorem flatten_build_round_trip_witness:
  "buildSdkDatatableProperties sampleExternals
     (resourceWith
        [\<lparr>pm_name = Some ''key'', pm_type = Some ''string'', pm_title = Some ''Key'',
          pm_default = Some ''k0''\<rparr>,
         configured ''a'' ''boolean'' (Some ''true''),
         configured ''b'' ''integer'' (Some ''-17''),
         configured ''c'' ''number'' (Some ''1.5''),
         \<lparr>pm_name = Some ''e'', pm_type = Some ''string'', pm_title = Some [],
          pm_default = Some []\<rparr>]) =
   Inr (Some (map_of
     [(''c'', \<lparr>Id_prop = Some ''/properties/c'', VarType = Some ''number'', Title = None,
               Default = Some (VFloat64 0x3FF8000000000000), DisplayOrder = Some 3\<rparr>),
      (''e'', \<lparr>Id_prop = Some ''/properties/e'', VarType = Some ''string'', Title = Some [],
               Default = None, DisplayOrder = Some 4\<rparr>),
      (''b'', \<lparr>Id_prop = Some ''/properties/b'', VarType = Some ''integer'', Title = None,
               Default = Some (VInt (- 17)), DisplayOrder = Some 2\<rparr>),
      (''key'', \<lparr>Id_prop = Some ''/properties/key'', VarType = Some ''string'',
                 Title = Some ''Key'', Default = Some (VString ''k0''), DisplayOrder = Some 0\<rparr>),
      (''a'', \<lparr>Id_prop = Some ''/properties/a'', VarType = Some ''boolean'', Title = None,
               Default = Some (VBool True), DisplayOrder = Some 1\<rparr>)])) \<and>
   flattenDatatableProperties sampleExternals
     [(''c'', \<lparr>Id_prop = Some ''/properties/c'', VarType = Some ''number'', Title = None,
               Default = Some (VFloat64 0x3FF8000000000000), DisplayOrder = Some 3\<rparr>),
      (''e'', \<lparr>Id_prop = Some ''/properties/e'', VarType = Some ''string'', Title = Some [],
               Default = None, DisplayOrder = Some 4\<rparr>),
      (''b'', \<lparr>Id_prop = Some ''/properties/b'', VarType = Some ''integer'', Title = None,
               Default = Some (VInt (- 17)), DisplayOrder = Some 2\<rparr>),
      (''key'', \<lparr>Id_prop = Some ''/properties/key'', VarType = Some ''string'',
                 Title = Some ''Key'', Default = Some (VString ''k0''), DisplayOrder = Some 0\<rparr>),
      (''a'', \<lparr>Id_prop = Some ''/properties/a'', VarType = Some ''boolean'', Title = None,
               Default = Some (VBool True), DisplayOrder = Some 1\<rparr>)] =
   [\<lparr>pm_name = Some ''key'', pm_type = Some ''string'', pm_title = Some ''Key'',
     pm_default = Some ''k0''\<rparr>,
    configured ''a'' ''boolean'' (Some ''true''),
    configured ''b'' ''integer'' (Some ''-17''),
    configured ''c'' ''number'' (Some ''1.5''),
    \<lparr>pm_name = Some ''e'', pm_type = Some ''string'', pm_title = Some [], pm_default = None\<rparr>]"
proof -
  let ?cfg = "[\<lparr>pm_name = Some ''key'', pm_type = Some ''string'', pm_title = Some ''Key'',
          pm_default = Some ''k0''\<rparr>,
         configured ''a'' ''boolean'' (Some ''true''),
         configured ''b'' ''integer'' (Some ''-17''),
         configured ''c'' ''number'' (Some ''1.5''),
         \<lparr>pm_name = Some ''e'', pm_type = Some ''string'', pm_title = Some [],
          pm_default = Some []\<rparr>]"
  let ?K = "[(''c'', \<lparr>Id_prop = Some ''/properties/c'', VarType = Some ''number'', Title = None,
               Default = Some (VFloat64 0x3FF8000000000000), DisplayOrder = Some 3\<rparr>),
      (''e'', \<lparr>Id_prop = Some ''/properties/e'', VarType = Some ''string'', Title = Some [],
               Default = None, DisplayOrder = Some 4\<rparr>),
      (''b'', \<lparr>Id_prop = Some ''/properties/b'', VarType = Some ''integer'', Title = None,
               Default = Some (VInt (- 17)), DisplayOrder = Some 2\<rparr>),
      (''key'', \<lparr>Id_prop = Some ''/properties/key'', VarType = Some ''string'',
                 Title = Some ''Key'', Default = Some (VString ''k0''), DisplayOrder = Some 0\<rparr>),
      (''a'', \<lparr>Id_prop = Some ''/properties/a'', VarType = Some ''boolean'', Title = None,
               Default = Some (VBool True), DisplayOrder = Some 1\<rparr>)]"
  have cfg: "rd_properties (resourceWith ?cfg) = Some ?cfg" by (simp add: resourceWith_def)
  have v: "\<forall>p \<in> set ?cfg. schemaValid sampleExternals p"
    by (simp add: schemaValid_def configured_def sampleExternals_def sample_ParseBool_def
          sample_Atoi_def sample_ParseFloat_def sample_floats_def digitVal_def)
  have names: "distinct (map pm_name ?cfg)" by (simp add: configured_def)
  have c: "\<forall>p \<in> set ?cfg. canonicalDefault sampleExternals p"
    by (simp add: canonicalDefault_def configured_def sampleExternals_def sample_ParseBool_def
          sample_Atoi_def sample_ParseFloat_def sample_floats_def digitVal_def
          sample_interfaceToString_def)
  note rt = flatten_build_round_trip [OF cfg v names c]
  from rt obtain m where b: "buildSdkDatatableProperties sampleExternals (resourceWith ?cfg) =
      Inr (Some m)"
    by (elim conjE exE)
  have "buildSdkDatatableProperties sampleExternals (resourceWith ?cfg) = Inr (Some (map_of ?K))"
    by (simp add: eval_defs fun_eq_iff)
  with b have m: "m = map_of ?K" by simp
  have r: "range_of m ?K" unfolding m by (simp add: range_of_def)
  from rt [THEN conjunct2, THEN spec, THEN spec, THEN mp, OF conjI [OF b r]]
  have "flattenDatatableProperties sampleExternals ?K = map omitEmptyDefault ?cfg" .
  then have "flattenDatatableProperties sampleExternals ?K =
      [\<lparr>pm_name = Some ''key'', pm_type = Some ''string'', pm_title = Some ''Key'',
        pm_default = Some ''k0''\<rparr>,
       configured ''a'' ''boolean'' (Some ''true''),
       configured ''b'' ''integer'' (Some ''-17''),
       configured ''c'' ''number'' (Some ''1.5''),
       \<lparr>pm_name = Some ''e'', pm_type = Some ''string'', pm_title = Some [], pm_default = None\<rparr>]"
    by (simp add: omitEmptyDefault_def configured_def)
  with b m show ?thesis by simp
qed

theorem default_conversion_witness:
  "(\<exists>m. buildSdkDatatableProperties sampleExternals
          (resourceWith [configured ''key'' ''string'' (Some ''k0''),
                         configured ''a'' ''boolean'' (Some ''true''),
                         configured ''b'' ''integer'' (Some ''-17''),
                         configured ''c'' ''number'' (Some ''1.5''),
                         configured ''e'' ''string'' (Some [])]) = Inr (Some m) \<and>
        (\<exists>v. m ''key'' = Some v \<and> Default v = Some (VString ''k0'')) \<and>
        (\<exists>v. m ''a'' = Some v \<and> Default v = Some (VBool True)) \<and>
        (\<exists>v. m ''b'' = Some v \<and> Default v = Some (VInt (- 17))) \<and>
        (\<exists>v. m ''c'' = Some v \<and> Default v = Some (VFloat64 0x3FF8000000000000)) \<and>
        (\<exists>v. m ''e'' = Some v \<and> Default v = None)) \<and>
   (\<exists>e. buildSdkDatatableProperties sampleExternals
          (resourceWith [configured ''key'' ''string'' None,
                         configured ''b'' ''integer'' (Some ''1x'')]) = Inl (Diag e))"
proof (rule conjI)
  let ?cfg = "[configured ''key'' ''string'' (Some ''k0''),
               configured ''a'' ''boolean'' (Some ''true''),
               configured ''b'' ''integer'' (Some ''-17''),
               configured ''c'' ''number'' (Some ''1.5''),
               configured ''e'' ''string'' (Some [])]"
  have cfg: "rd_properties (resourceWith ?cfg) = Some ?cfg" by (simp add: resourceWith_def)
  have v: "\<forall>p \<in> set ?cfg. schemaValid sampleExternals p"
    by (simp add: schemaValid_def configured_def sampleExternals_def sample_ParseBool_def
          sample_Atoi_def sample_ParseFloat_def sample_floats_def digitVal_def)
  from default_conversion [OF cfg, of sampleExternals, THEN conjunct1, THEN mp, OF v]
  obtain m where b: "buildSdkDatatableProperties sampleExternals (resourceWith ?cfg) = Inr (Some m)" ..
  have dn: "distinct (map pm_name ?cfg)" by (simp add: configured_def)
  have len: "0 < length ?cfg" "1 < length ?cfg" "2 < length ?cfg" "3 < length ?cfg" "4 < length ?cfg"
    by simp_all
  note stored = default_conversion [OF cfg, of sampleExternals, THEN conjunct2, THEN conjunct1,
      THEN spec, THEN spec, THEN mp]
  note s0 = stored [OF conjI [OF b conjI [OF len(1) distinct_later [OF dn len(1)]]]]
  note s1 = stored [OF conjI [OF b conjI [OF len(2) distinct_later [OF dn len(2)]]]]
  note s2 = stored [OF conjI [OF b conjI [OF len(3) distinct_later [OF dn len(3)]]]]
  note s3 = stored [OF conjI [OF b conjI [OF len(4) distinct_later [OF dn len(4)]]]]
  note s4 = stored [OF conjI [OF b conjI [OF len(5) distinct_later [OF dn len(5)]]]]
  have k: "\<exists>v. m ''key'' = Some v \<and> Default v = Some (VString ''k0'')"
    using s0 by (auto simp: configured_def)
  have a: "\<exists>v. m ''a'' = Some v \<and> Default v = Some (VBool True)"
    using s1 by (auto simp: configured_def sampleExternals_def sample_ParseBool_def)
  have i: "\<exists>v. m ''b'' = Some v \<and> Default v = Some (VInt (- 17))"
    using s2 by (auto simp: configured_def sampleExternals_def sample_Atoi_def digitVal_def)
  have c: "\<exists>v. m ''c'' = Some v \<and> Default v = Some (VFloat64 0x3FF8000000000000)"
    using s3 by (auto simp: configured_def sampleExternals_def sample_ParseFloat_def sample_floats_def)
  have e: "\<exists>v. m ''e'' = Some v \<and> Default v = None"
    using s4 by (auto simp: configured_def)
  from b k a i c e
  show "\<exists>m. buildSdkDatatableProperties sampleExternals (resourceWith ?cfg) = Inr (Some m) \<and>
        (\<exists>v. m ''key'' = Some v \<and> Default v = Some (VString ''k0'')) \<and>
        (\<exists>v. m ''a'' = Some v \<and> Default v = Some (VBool True)) \<and>
        (\<exists>v. m ''b'' = Some v \<and> Default v = Some (VInt (- 17))) \<and>
        (\<exists>v. m ''c'' = Some v \<and> Default v = Some (VFloat64 0x3FF8000000000000)) \<and>
        (\<exists>v. m ''e'' = Some v \<and> Default v = None)"
    by (intro exI [of _ m] conjI)
next
  let ?bad = "[configured ''key'' ''string'' None, configured ''b'' ''integer'' (Some ''1x'')]"
  have cfg: "rd_properties (resourceWith ?bad) = Some ?bad" by (simp add: resourceWith_def)
  have h: "(\<forall>q \<in> set ?bad. pm_name q \<noteq> None \<and> pm_type q \<noteq> None) \<and>
           configured ''b'' ''integer'' (Some ''1x'') \<in> set ?bad \<and>
           pm_default (configured ''b'' ''integer'' (Some ''1x'')) = Some ''1x'' \<and> ''1x'' \<noteq> [] \<and>
           (pm_type (configured ''b'' ''integer'' (Some ''1x'')) = Some ''boolean'' \<and>
              isl (ParseBool sampleExternals ''1x'') \<or>
            pm_type (configured ''b'' ''integer'' (Some ''1x'')) = Some ''integer'' \<and>
              isl (Atoi sampleExternals ''1x'') \<or>
            pm_type (configured ''b'' ''integer'' (Some ''1x'')) = Some ''number'' \<and>
              isl (ParseFloat sampleExternals ''1x''))"
    by (simp add: configured_def sampleExternals_def sample_Atoi_def digitVal_def)
  from default_conversion [OF cfg, of sampleExternals, THEN conjunct2, THEN conjunct2,
      THEN spec, THEN spec, THEN mp, OF h]
  show "\<exists>e. buildSdkDatatableProperties sampleExternals (resourceWith ?bad) = Inl (Diag e)" .
qed

section \<open>The retry loop\<close>

lemma withRetries_deadline:
  "T \<le> t \<Longrightarrow> withRetries T f ((t, r) # rest) d = Returns (TimeoutDiag, d)"
  by simp

lemma withRetries_retry:
  "t < T \<Longrightarrow> f r d = Returns (Some (RetryableError e), d') \<Longrightarrow>
     withRetries T f ((t, r) # rest) d = withRetries T f rest d'"
  by simp

lemma withRetries_done:
  "t < T \<Longrightarrow> f r d = Returns (None, d') \<Longrightarrow>
     withRetries T f ((t, r) # rest) d = Returns (NoDiag, d')"
  by simp

lemma withRetries_error:
  "t < T \<Longrightarrow> f r d = Returns (Some (NonRetryableError e), d') \<Longrightarrow>
     withRetries T f ((t, r) # rest) d = Returns (ErrDiag e, d')"
  by simp

lemma withRetries_panic:
  "t < T \<Longrightarrow> f r d = Panics \<Longrightarrow> withRetries T f ((t, r) # rest) d = Panics"
  by simp

lemma withRetries_prefix:
  assumes "\<forall>x \<in> set pre. fst x < T \<and> (\<exists>e. f (snd x) d = Returns (Some (RetryableError e), d))"
  shows "withRetries T f (pre @ rest) d = withRetries T f rest d"
  using assms
proof (induction pre)
  case Nil
  then show ?case by simp
next
  case (Cons x pre)
  obtain t r where x: "x = (t, r)" by (cases x)
  from Cons.prems x obtain e where "t < T" "f r d = Returns (Some (RetryableError e), d)"
    by auto
  then have "withRetries T f ((t, r) # (pre @ rest)) d = withRetries T f (pre @ rest) d"
    by (rule withRetries_retry)
  also have "\<dots> = withRetries T f rest d"
    using Cons.prems by (intro Cons.IH) simp
  finally show ?case using x by simp
qed

lemma withRetries_success_split:
  assumes pure: "\<And>r e d''. f r d = Returns (Some (RetryableError e), d'') \<Longrightarrow> d'' = d"
    and ok: "withRetries T f gets d = Returns (NoDiag, d')"
  shows "\<exists>pre t r post. gets = pre @ (t, r) # post \<and>
           (\<forall>x \<in> set pre. fst x < T \<and> (\<exists>e. f (snd x) d = Returns (Some (RetryableError e), d))) \<and>
           t < T \<and> f r d = Returns (None, d')"
  using ok
proof (induction gets)
  case Nil
  then show ?case by simp
next
  case (Cons x gets)
  obtain t r where x: "x = (t, r)" by (cases x)
  from Cons.prems x have t: "t < T" by (auto split: if_splits)
  show ?case
  proof (cases "f r d")
    case Panics
    with Cons.prems x t show ?thesis by simp
  next
    case (Returns res)
    obtain re d1 where res: "res = (re, d1)" by (cases res)
    show ?thesis
    proof (cases re)
      case None
      with Cons.prems x t Returns res have "f r d = Returns (None, d')" by simp
      with t x have "x # gets = [] @ (t, r) # gets \<and>
           (\<forall>x \<in> set []. fst x < T \<and> (\<exists>e. f (snd x) d = Returns (Some (RetryableError e), d))) \<and>
           t < T \<and> f r d = Returns (None, d')"
        by simp
      then show ?thesis by blast
    next
      case (Some err)
      show ?thesis
      proof (cases err)
        case (NonRetryableError e)
        with Cons.prems x t Returns res Some show ?thesis by simp
      next
        case (RetryableError e)
        with Returns res Some have fr: "f r d = Returns (Some (RetryableError e), d1)" by simp
        from pure [OF fr] have d1: "d1 = d" .
        from Cons.prems x t fr d1 have "withRetries T f gets d = Returns (NoDiag, d')" by simp
        from Cons.IH [OF this] obtain pre t' r' post where
          g: "gets = pre @ (t', r') # post"
          and p: "\<forall>x \<in> set pre. fst x < T \<and> (\<exists>e. f (snd x) d = Returns (Some (RetryableError e), d))"
          and l: "t' < T" "f r' d = Returns (None, d')"
          by blast
        have "x # gets = (x # pre) @ (t', r') # post" using g by simp
        moreover have "\<forall>y \<in> set (x # pre). fst y < T \<and> (\<exists>e. f (snd y) d = Returns (Some (RetryableError e), d))"
          using p x t fr d1 by auto
        ultimately show ?thesis using l by blast
      qed
    qed
  qed
qed

lemma withRetries_success_iff:
  assumes pure: "\<And>r e d''. f r d = Returns (Some (RetryableError e), d'') \<Longrightarrow> d'' = d"
  shows "withRetries T f gets d = Returns (NoDiag, d') \<longleftrightarrow>
         (\<exists>pre t r post. gets = pre @ (t, r) # post \<and>
           (\<forall>x \<in> set pre. fst x < T \<and> (\<exists>e. f (snd x) d = Returns (Some (RetryableError e), d))) \<and>
           t < T \<and> f r d = Returns (None, d'))"
proof
  assume "withRetries T f gets d = Returns (NoDiag, d')"
  from withRetries_success_split [OF pure this] show "\<exists>pre t r post. gets = pre @ (t, r) # post \<and>
           (\<forall>x \<in> set pre. fst x < T \<and> (\<exists>e. f (snd x) d = Returns (Some (RetryableError e), d))) \<and>
           t < T \<and> f r d = Returns (None, d')"
    by simp
next
  assume "\<exists>pre t r post. gets = pre @ (t, r) # post \<and>
           (\<forall>x \<in> set pre. fst x < T \<and> (\<exists>e. f (snd x) d = Returns (Some (RetryableError e), d))) \<and>
           t < T \<and> f r d = Returns (None, d')"
  then obtain pre t r post where g: "gets = pre @ (t, r) # post"
    and p: "\<forall>x \<in> set pre. fst x < T \<and> (\<exists>e. f (snd x) d = Returns (Some (RetryableError e), d))"
    and l: "t < T" "f r d = Returns (None, d')"
    by blast
  have "withRetries T f gets d = withRetries T f ((t, r) # post) d"
    unfolding g using p by (rule withRetries_prefix)
  also have "\<dots> = Returns (NoDiag, d')" using l by (rule withRetries_done)
  finally show "withRetries T f gets d = Returns (NoDiag, d')" .
qed

section \<open>Polling after the delete\<close>

lemma delete_attempt_cases:
  "deleteArchitectDatatable_attempt (p, resp, None) d =
     Returns (Some (RetryableError (''Datatable row '' @ rd_name d @ '' still exists'')), d)"
  "isStatus404 resp \<Longrightarrow> deleteArchitectDatatable_attempt (p, resp, Some e) d = Returns (None, d)"
  "\<not> isStatus404 resp \<Longrightarrow> deleteArchitectDatatable_attempt (p, resp, Some e) d =
     Returns (Some (NonRetryableError (''Error deleting datatable row '' @ rd_name d @ '': '' @ e)), d)"
  by (simp_all add: deleteArchitectDatatable_attempt_def)

lemma delete_attempt_retry_iff:
  "(\<exists>e. deleteArchitectDatatable_attempt r d = Returns (Some (RetryableError e), d'')) \<longleftrightarrow>
     snd (snd r) = None \<and> d'' = d"
  by (cases r) (auto simp: deleteArchitectDatatable_attempt_def split: option.splits)

lemma delete_attempt_done_iff:
  "deleteArchitectDatatable_attempt r d = Returns (None, d') \<longleftrightarrow>
     (\<exists>p resp e. r = (p, resp, Some e) \<and> isStatus404 resp) \<and> d' = d"
  by (cases r) (auto simp: deleteArchitectDatatable_attempt_def split: option.splits)

lemma delete_attempt_pure:
  "deleteArchitectDatatable_attempt r d = Returns (Some (RetryableError e), d'') \<Longrightarrow> d'' = d"
  using delete_attempt_retry_iff by blast

lemma delete_attempt_retry_same:
  "(\<exists>e. deleteArchitectDatatable_attempt r d = Returns (Some (RetryableError e), d)) \<longleftrightarrow>
      snd (snd r) = None"
  using delete_attempt_retry_iff [of r d d] by simp

lemma delete_success_iff:
  "withRetries T deleteArchitectDatatable_attempt gets d = Returns (NoDiag, d') \<longleftrightarrow>
     d' = d \<and>
     (\<exists>pre t p resp e post. gets = pre @ (t, (p, resp, Some e)) # post \<and>
        (\<forall>x \<in> set pre. fst x < T \<and> snd (snd (snd x)) = None) \<and> t < T \<and> isStatus404 resp)"
proof
  assume ok: "withRetries T deleteArchitectDatatable_attempt gets d = Returns (NoDiag, d')"
  have "\<exists>pre t r post. gets = pre @ (t, r) # post \<and>
           (\<forall>x \<in> set pre. fst x < T \<and>
              (\<exists>e. deleteArchitectDatatable_attempt (snd x) d = Returns (Some (RetryableError e), d))) \<and>
           t < T \<and> deleteArchitectDatatable_attempt r d = Returns (None, d')"
    by (rule withRetries_success_split [where f = deleteArchitectDatatable_attempt])
       (rule delete_attempt_pure, assumption, rule ok)
  then obtain pre t r post where
    g: "gets = pre @ (t, r) # post"
    and p: "\<forall>x \<in> set pre. fst x < T \<and>
             (\<exists>e. deleteArchitectDatatable_attempt (snd x) d = Returns (Some (RetryableError e), d))"
    and l: "t < T" "deleteArchitectDatatable_attempt r d = Returns (None, d')"
    by blast
  from l(2) obtain q resp e where r: "r = (q, resp, Some e)" "isStatus404 resp" "d' = d"
    unfolding delete_attempt_done_iff by blast
  from p have "\<forall>x \<in> set pre. fst x < T \<and> snd (snd (snd x)) = None"
    unfolding delete_attempt_retry_same .
  with g l(1) r show "d' = d \<and>
   (\<exists>pre t p resp e post. gets = pre @ (t, (p, resp, Some e)) # post \<and>
      (\<forall>x \<in> set pre. fst x < T \<and> snd (snd (snd x)) = None) \<and> t < T \<and> isStatus404 resp)"
    by blast
next
  assume "d' = d \<and>
   (\<exists>pre t p resp e post. gets = pre @ (t, (p, resp, Some e)) # post \<and>
      (\<forall>x \<in> set pre. fst x < T \<and> snd (snd (snd x)) = None) \<and> t < T \<and> isStatus404 resp)"
  then obtain pre t q resp e post where d: "d' = d"
    and g: "gets = pre @ (t, (q, resp, Some e)) # post"
    and p: "\<forall>x \<in> set pre. fst x < T \<and> snd (snd (snd x)) = None"
    and l: "t < T" "isStatus404 resp"
    by blast
  from p have p': "\<forall>x \<in> set pre. fst x < T \<and>
             (\<exists>e. deleteArchitectDatatable_attempt (snd x) d = Returns (Some (RetryableError e), d))"
    unfolding delete_attempt_retry_same .
  have fin: "deleteArchitectDatatable_attempt (q, resp, Some e) d = Returns (None, d')"
    using l(2) d by (simp add: delete_attempt_cases)
  have "withRetries T deleteArchitectDatatable_attempt gets d =
        withRetries T deleteArchitectDatatable_attempt ((t, (q, resp, Some e)) # post) d"
    unfolding g using p' by (rule withRetries_prefix)
  also have "\<dots> = Returns (NoDiag, d')" using l(1) fin by (rule withRetries_done)
  finally show "withRetries T deleteArchitectDatatable_attempt gets d = Returns (NoDiag, d')" .
qed

text \<open>
  Claim C6. After a successful DELETE call, \<^verbatim>\<open>deleteArchitectDatatable\<close> polls GET within
  a deadline of 30 seconds and never reports success while the datatable still exists: it
  returns success exactly when, before the deadline, a GET fails with status 404 after GETs
  that all succeeded; it goes on to the next attempt while the GET succeeds; and it returns
  the non-retryable error for a GET that fails with another status. Past the deadline it
  reports the timeout.
\<close>

theorem delete_polling:
  "(deleteArchitectDatatable d (delResp, None) gets = Returns (NoDiag, d') \<longleftrightarrow>
      d' = d \<and>
      (\<exists>pre t p resp e post. gets = pre @ (t, (p, resp, Some e)) # post \<and>
         (\<forall>x \<in> set pre. fst x < 30 * Second \<and> snd (snd (snd x)) = None) \<and>
         t < 30 * Second \<and> isStatus404 resp)) \<and>
   (t < 30 * Second \<longrightarrow>
      deleteArchitectDatatable d (delResp, None) ((t, (p, resp, None)) # rest) =
      deleteArchitectDatatable d (delResp, None) rest) \<and>
   (t < 30 * Second \<and> \<not> isStatus404 resp \<longrightarrow>
      deleteArchitectDatatable d (delResp, None) ((t, (p, resp, Some e)) # rest) =
      Returns (ErrDiag (''Error deleting datatable row '' @ rd_name d @ '': '' @ e), d)) \<and>
   (t < 30 * Second \<and> isStatus404 resp \<longrightarrow>
      deleteArchitectDatatable d (delResp, None) ((t, (p, resp, Some e)) # rest) =
      Returns (NoDiag, d)) \<and>
   (30 * Second \<le> t \<longrightarrow>
      deleteArchitectDatatable d (delResp, None) ((t, r) # rest) = Returns (TimeoutDiag, d)) \<and>
   deleteArchitectDatatable d (delResp, None) [] = Returns (TimeoutDiag, d)"
proof (intro conjI impI)
  show "deleteArchitectDatatable d (delResp, None) gets = Returns (NoDiag, d') \<longleftrightarrow>
      d' = d \<and>
      (\<exists>pre t p resp e post. gets = pre @ (t, (p, resp, Some e)) # post \<and>
         (\<forall>x \<in> set pre. fst x < 30 * Second \<and> snd (snd (snd x)) = None) \<and>
         t < 30 * Second \<and> isStatus404 resp)"
    by (simp only: deleteArchitectDatatable_def prod.case option.case delete_success_iff)
next
  assume "t < 30 * Second"
  then show "deleteArchitectDatatable d (delResp, None) ((t, (p, resp, None)) # rest) =
      deleteArchitectDatatable d (delResp, None) rest"
    by (simp add: deleteArchitectDatatable_def delete_attempt_cases)
next
  assume "t < 30 * Second \<and> \<not> isStatus404 resp"
  then show "deleteArchitectDatatable d (delResp, None) ((t, (p, resp, Some e)) # rest) =
      Returns (ErrDiag (''Error deleting datatable row '' @ rd_name d @ '': '' @ e), d)"
    by (simp add: deleteArchitectDatatable_def delete_attempt_cases)
next
  assume "t < 30 * Second \<and> isStatus404 resp"
  then show "deleteArchitectDatatable d (delResp, None) ((t, (p, resp, Some e)) # rest) =
      Returns (NoDiag, d)"
    by (simp add: deleteArchitectDatatable_def delete_attempt_cases)
next
  assume "30 * Second \<le> t"
  then show "deleteArchitectDatatable d (delResp, None) ((t, r) # rest) = Returns (TimeoutDiag, d)"
    by (simp add: deleteArchitectDatatable_def)
next
  show "deleteArchitectDatatable d (delResp, None) [] = Returns (TimeoutDiag, d)"
    by (simp add: deleteArchitectDatatable_def)
qed

theorem delete_polling_witness:
  "(0::int) < 30 * Second \<and> Second < 30 * Second \<and>
   isStatus404 (Some \<lparr>StatusCode = 404, Error_resp = Some ''not found'',
                       ErrorMessage = ''not found'', RawBody = []\<rparr>) \<and>
   deleteArchitectDatatable (resourceWith []) (None, None)
     [(0, (None, Some \<lparr>StatusCode = 200, Error_resp = None, ErrorMessage = [], RawBody = []\<rparr>, None)),
      (Second, (None, Some \<lparr>StatusCode = 404, Error_resp = Some ''not found'',
                             ErrorMessage = ''not found'', RawBody = []\<rparr>, Some ''not found''))] =
   Returns (NoDiag, resourceWith [])"
proof -
  let ?r404 = "Some \<lparr>StatusCode = 404, Error_resp = Some ''not found'',
                       ErrorMessage = ''not found'', RawBody = []\<rparr>"
  let ?r200 = "Some \<lparr>StatusCode = 200, Error_resp = None, ErrorMessage = [], RawBody = []\<rparr>"
  have t0: "(0::int) < 30 * Second" and t1: "Second < 30 * Second" by (simp_all add: Second_def)
  have n: "isStatus404 ?r404" by (simp add: isStatus404_def)
  note step = delete_polling [where d = "resourceWith []" and delResp = None and t = 0
      and p = None and resp = ?r200 and rest = "[(Second, (None, ?r404, Some ''not found''))]",
      THEN conjunct2, THEN conjunct1, THEN mp, OF t0]
  note fin = delete_polling [where d = "resourceWith []" and delResp = None and t = Second
      and p = None and resp = ?r404 and e = "''not found''" and rest = "[]",
      THEN conjunct2, THEN conjunct2, THEN conjunct2, THEN conjunct1, THEN mp, OF conjI [OF t1 n]]
  from step fin t0 t1 n show ?thesis by simp
qed

section \<open>Retrying the station query\<close>

lemma station_attempt_cases:
  "dataSourceStationRead_attempt (stations, resp, Some e) d =
     Returns (Some (NonRetryableError (''Error requesting station '' @ e)), d)"
  "dataSourceStationRead_attempt (None, resp, None) d = Panics"
  "Entities listing = None \<or> Entities listing = Some [] \<Longrightarrow>
     dataSourceStationRead_attempt (Some listing, resp, None) d =
     Returns (Some (RetryableError ''No stations found''), d)"
  "Entities listing = Some (station # others) \<Longrightarrow> Id_st station = Some i \<Longrightarrow>
     dataSourceStationRead_attempt (Some listing, resp, None) d = Returns (None, d\<lparr>rd_id := i\<rparr>)"
  "Entities listing = Some (station # others) \<Longrightarrow> Id_st station = None \<Longrightarrow>
     dataSourceStationRead_attempt (Some listing, resp, None) d = Panics"
  by (auto simp: dataSourceStationRead_attempt_def)

lemma station_attempt_retry_iff:
  "(\<exists>e. dataSourceStationRead_attempt r d = Returns (Some (RetryableError e), d'')) \<longleftrightarrow>
     (\<exists>listing resp. r = (Some listing, resp, None) \<and>
        (Entities listing = None \<or> Entities listing = Some [])) \<and> d'' = d"
  by (cases r) (auto simp: dataSourceStationRead_attempt_def split: option.splits list.splits)

lemma station_attempt_pure:
  "dataSourceStationRead_attempt r d = Returns (Some (RetryableError e), d'') \<Longrightarrow> d'' = d"
  using station_attempt_retry_iff by blast

lemma station_attempt_retry_same:
  "(\<exists>e. dataSourceStationRead_attempt r d = Returns (Some (RetryableError e), d)) \<longleftrightarrow>
     (\<exists>listing resp. r = (Some listing, resp, None) \<and>
        (Entities listing = None \<or> Entities listing = Some []))"
  using station_attempt_retry_iff [of r d d] by simp

lemma station_attempt_done_iff:
  "dataSourceStationRead_attempt r d = Returns (None, d') \<longleftrightarrow>
     (\<exists>listing resp station others i. r = (Some listing, resp, None) \<and>
        Entities listing = Some (station # others) \<and> Id_st station = Some i \<and> d' = d\<lparr>rd_id := i\<rparr>)"
  by (cases r) (auto simp: dataSourceStationRead_attempt_def split: option.splits list.splits)

lemma station_success_iff:
  "withRetries T dataSourceStationRead_attempt gets d = Returns (NoDiag, d') \<longleftrightarrow>
     (\<exists>pre t listing resp station others i post.
        gets = pre @ (t, (Some listing, resp, None)) # post \<and>
        (\<forall>x \<in> set pre. fst x < T \<and>
           (\<exists>l r. snd x = (Some l, r, None) \<and> (Entities l = None \<or> Entities l = Some []))) \<and>
        t < T \<and> Entities listing = Some (station # others) \<and> Id_st station = Some i \<and>
        d' = d\<lparr>rd_id := i\<rparr>)"
proof
  assume ok: "withRetries T dataSourceStationRead_attempt gets d = Returns (NoDiag, d')"
  have "\<exists>pre t r post. gets = pre @ (t, r) # post \<and>
           (\<forall>x \<in> set pre. fst x < T \<and>
              (\<exists>e. dataSourceStationRead_attempt (snd x) d = Returns (Some (RetryableError e), d))) \<and>
           t < T \<and> dataSourceStationRead_attempt r d = Returns (None, d')"
    by (rule withRetries_success_split [where f = dataSourceStationRead_attempt])
       (rule station_attempt_pure, assumption, rule ok)
  then obtain pre t r post where
    g: "gets = pre @ (t, r) # post"
    and p: "\<forall>x \<in> set pre. fst x < T \<and>
             (\<exists>e. dataSourceStationRead_attempt (snd x) d = Returns (Some (RetryableError e), d))"
    and l: "t < T" "dataSourceStationRead_attempt r d = Returns (None, d')"
    by blast
  from l(2) obtain listing resp station others i where r: "r = (Some listing, resp, None)"
    "Entities listing = Some (station # others)" "Id_st station = Some i" "d' = d\<lparr>rd_id := i\<rparr>"
    unfolding station_attempt_done_iff by blast
  from p have "\<forall>x \<in> set pre. fst x < T \<and>
           (\<exists>l r. snd x = (Some l, r, None) \<and> (Entities l = None \<or> Entities l = Some []))"
    unfolding station_attempt_retry_same .
  with g l(1) r show "\<exists>pre t listing resp station others i post.
        gets = pre @ (t, (Some listing, resp, None)) # post \<and>
        (\<forall>x \<in> set pre. fst x < T \<and>
           (\<exists>l r. snd x = (Some l, r, None) \<and> (Entities l = None \<or> Entities l = Some []))) \<and>
        t < T \<and> Entities listing = Some (station # others) \<and> Id_st station = Some i \<and>
        d' = d\<lparr>rd_id := i\<rparr>"
    by blast
next
  assume "\<exists>pre t listing resp station others i post.
        gets = pre @ (t, (Some listing, resp, None)) # post \<and>
        (\<forall>x \<in> set pre. fst x < T \<and>
           (\<exists>l r. snd x = (Some l, r, None) \<and> (Entities l = None \<or> Entities l = Some []))) \<and>
        t < T \<and> Entities listing = Some (station # others) \<and> Id_st station = Some i \<and>
        d' = d\<lparr>rd_id := i\<rparr>"
  then obtain pre t listing resp station others i post where
    g: "gets = pre @ (t, (Some listing, resp, None)) # post"
    and p: "\<forall>x \<in> set pre. fst x < T \<and>
           (\<exists>l r. snd x = (Some l, r, None) \<and> (Entities l = None \<or> Entities l = Some []))"
    and l: "t < T" "Entities listing = Some (station # others)" "Id_st station = Some i"
      "d' = d\<lparr>rd_id := i\<rparr>"
    by blast
  from p have p': "\<forall>x \<in> set pre. fst x < T \<and>
             (\<exists>e. dataSourceStationRead_attempt (snd x) d = Returns (Some (RetryableError e), d))"
    unfolding station_attempt_retry_same .
  have fin: "dataSourceStationRead_attempt (Some listing, resp, None) d = Returns (None, d')"
    using l(2,3,4) by (simp add: station_attempt_cases)
  have "withRetries T dataSourceStationRead_attempt gets d =
        withRetries T dataSourceStationRead_attempt ((t, (Some listing, resp, None)) # post) d"
    unfolding g using p' by (rule withRetries_prefix)
  also have "\<dots> = Returns (NoDiag, d')" using l(1) fin by (rule withRetries_done)
  finally show "withRetries T dataSourceStationRead_attempt gets d = Returns (NoDiag, d')" .
qed

theorem station_first_id_nil_counterexample:
  "dataSourceStationRead (resourceWith [])
     [(0, (Some \<lparr>Entities = Some [\<lparr>Id_st = None\<rparr>]\<rparr>,
           Some \<lparr>StatusCode = 200, Error_resp = None, ErrorMessage = [], RawBody = []\<rparr>, None))] =
   Panics"
  by (simp add: dataSourceStationRead_def dataSourceStationRead_attempt_def Second_def)

text \<open>
  Claim C5, as amended. \<^verbatim>\<open>dataSourceStationRead\<close> is a timed retry loop with a deadline of
  15 seconds: it goes on to the next attempt while the API returns a nil or empty station
  list; it succeeds, setting the resource ID, as soon as a list is returned whose first
  station has an Id; it fails at once, without another attempt, when \<^verbatim>\<open>GetStations\<close>
  returns an error; past the deadline it reports the timeout.
\<close>

theorem station_read_retry:
  "(t < 15 * Second \<and> (Entities listing = None \<or> Entities listing = Some []) \<longrightarrow>
      dataSourceStationRead d ((t, (Some listing, resp, None)) # rest) =
      dataSourceStationRead d rest) \<and>
   (t < 15 * Second \<and> Entities listing = Some (station # others) \<and> Id_st station = Some i \<longrightarrow>
      dataSourceStationRead d ((t, (Some listing, resp, None)) # rest) =
      Returns (NoDiag, d\<lparr>rd_id := i\<rparr>)) \<and>
   (t < 15 * Second \<longrightarrow>
      dataSourceStationRead d ((t, (stations, resp, Some e)) # rest) =
      Returns (ErrDiag (''Error requesting station '' @ e), d)) \<and>
   (15 * Second \<le> t \<longrightarrow> dataSourceStationRead d ((t, r) # rest) = Returns (TimeoutDiag, d)) \<and>
   dataSourceStationRead d [] = Returns (TimeoutDiag, d) \<and>
   (dataSourceStationRead d gets = Returns (NoDiag, d') \<longleftrightarrow>
      (\<exists>pre t listing resp station others i post.
         gets = pre @ (t, (Some listing, resp, None)) # post \<and>
         (\<forall>x \<in> set pre. fst x < 15 * Second \<and>
            (\<exists>l r. snd x = (Some l, r, None) \<and> (Entities l = None \<or> Entities l = Some []))) \<and>
         t < 15 * Second \<and> Entities listing = Some (station # others) \<and> Id_st station = Some i \<and>
         d' = d\<lparr>rd_id := i\<rparr>))"
proof (intro conjI impI)
  assume "t < 15 * Second \<and> (Entities listing = None \<or> Entities listing = Some [])"
  then show "dataSourceStationRead d ((t, (Some listing, resp, None)) # rest) =
      dataSourceStationRead d rest"
    by (simp add: dataSourceStationRead_def station_attempt_cases(3))
next
  assume "t < 15 * Second \<and> Entities listing = Some (station # others) \<and> Id_st station = Some i"
  then show "dataSourceStationRead d ((t, (Some listing, resp, None)) # rest) =
      Returns (NoDiag, d\<lparr>rd_id := i\<rparr>)"
    by (simp add: dataSourceStationRead_def station_attempt_cases(4))
next
  assume "t < 15 * Second"
  then show "dataSourceStationRead d ((t, (stations, resp, Some e)) # rest) =
      Returns (ErrDiag (''Error requesting station '' @ e), d)"
    by (simp add: dataSourceStationRead_def station_attempt_cases(1))
next
  assume "15 * Second \<le> t"
  then show "dataSourceStationRead d ((t, r) # rest) = Returns (TimeoutDiag, d)"
    by (simp add: dataSourceStationRead_def)
next
  show "dataSourceStationRead d [] = Returns (TimeoutDiag, d)"
    by (simp add: dataSourceStationRead_def)
next
  show "dataSourceStationRead d gets = Returns (NoDiag, d') \<longleftrightarrow>
      (\<exists>pre t listing resp station others i post.
         gets = pre @ (t, (Some listing, resp, None)) # post \<and>
         (\<forall>x \<in> set pre. fst x < 15 * Second \<and>
            (\<exists>l r. snd x = (Some l, r, None) \<and> (Entities l = None \<or> Entities l = Some []))) \<and>
         t < 15 * Second \<and> Entities listing = Some (station # others) \<and> Id_st station = Some i \<and>
         d' = d\<lparr>rd_id := i\<rparr>)"
    by (simp only: dataSourceStationRead_def station_success_iff)
qed

theorem station_read_retry_witness:
  "(0::int) < 15 * Second \<and> Second < 15 * Second \<and>
   dataSourceStationRead (resourceWith [])
     [(0, (Some \<lparr>Entities = Some []\<rparr>,
           Some \<lparr>StatusCode = 200, Error_resp = None, ErrorMessage = [], RawBody = []\<rparr>, None)),
      (Second, (Some \<lparr>Entities = Some [\<lparr>Id_st = Some ''s1''\<rparr>, \<lparr>Id_st = None\<rparr>]\<rparr>,
           Some \<lparr>StatusCode = 200, Error_resp = None, ErrorMessage = [], RawBody = []\<rparr>, None))] =
   Returns (NoDiag, (resourceWith [])\<lparr>rd_id := ''s1''\<rparr>)"
proof -
  let ?r200 = "Some \<lparr>StatusCode = 200, Error_resp = None, ErrorMessage = [], RawBody = []\<rparr>"
  let ?l2 = "\<lparr>Entities = Some [\<lparr>Id_st = Some ''s1''\<rparr>, \<lparr>Id_st = None\<rparr>]\<rparr>"
  have t0: "(0::int) < 15 * Second" and t1: "Second < 15 * Second" by (simp_all add: Second_def)
  have e0: "Entities \<lparr>Entities = Some []\<rparr> = None \<or> Entities \<lparr>Entities = Some []\<rparr> = Some []"
    by simp
  have e1: "Entities ?l2 = Some (\<lparr>Id_st = Some ''s1''\<rparr> # [\<lparr>Id_st = None\<rparr>])"
    and i1: "Id_st \<lparr>Id_st = Some ''s1''\<rparr> = Some ''s1''" by simp_all
  note step = station_read_retry [where d = "resourceWith []" and t = 0
      and listing = "\<lparr>Entities = Some []\<rparr>" and resp = ?r200
      and rest = "[(Second, (Some ?l2, ?r200, None))]",
      THEN conjunct1, THEN mp, OF conjI [OF t0 e0]]
  note fin = station_read_retry [where d = "resourceWith []" and t = Second
      and listing = ?l2 and resp = ?r200 and rest = "[]"
      and station = "\<lparr>Id_st = Some ''s1''\<rparr>" and others = "[\<lparr>Id_st = None\<rparr>]" and i = "''s1''",
      THEN conjunct2, THEN conjunct1, THEN mp, OF conjI [OF t1 conjI [OF e1 i1]]]
  from step fin t0 t1 show ?thesis by simp
qed

section \<open>Reading the datatable\<close>

lemma read_attempt_failure:
  assumes "sdkGetArchitectDatatable E c = Returns (datatable, resp, Some e)"
  shows "isStatus404 resp \<Longrightarrow> readArchitectDatatable_attempt E c d =
           Returns (Some (RetryableError (''Failed to read datatable '' @ rd_id d @ '': '' @ e)), d)"
    and "\<not> isStatus404 resp \<Longrightarrow> readArchitectDatatable_attempt E c d =
           Returns (Some (NonRetryableError (''Failed to read datatable '' @ rd_id d @ '': '' @ e)), d)"
  using assms by (simp_all add: readArchitectDatatable_attempt_def)

lemma read_attempt_success:
  assumes "sdkGetArchitectDatatable E c = Returns (Some dt, resp, None)"
    and "Name dt = Some n" "Division dt = Some dv" "Id_div dv = Some i"
  shows "readArchitectDatatable_attempt E c d =
     Returns (None,
       d\<lparr>rd_name := n, rd_division_id := Some i, rd_description := Description dt,
         rd_properties :=
           (case Schema_dt dt of
              None \<Rightarrow> None
            | Some schema \<Rightarrow>
                (case Properties schema of
                   None \<Rightarrow> None
                 | Some properties \<Rightarrow>
                     Some (flattenDatatableProperties E (mapRange E properties))))\<rparr>)"
  using assms by (simp add: readArchitectDatatable_attempt_def)

lemma read_attempt_panics_iff:
  assumes "sdkGetArchitectDatatable E c = Returns (datatable, resp, None)"
  shows "readArchitectDatatable_attempt E c d = Panics \<longleftrightarrow>
     datatable = None \<or>
     (\<exists>dt. datatable = Some dt \<and>
        (Name dt = None \<or> Division dt = None \<or> (\<exists>dv. Division dt = Some dv \<and> Id_div dv = None)))"
  using assms by (auto simp: readArchitectDatatable_attempt_def split: option.splits)

lemma read_attempt_retry_iff:
  assumes "sdkGetArchitectDatatable E c = Returns (datatable, resp, getErr)"
  shows "(\<exists>msg d''. readArchitectDatatable_attempt E c d = Returns (Some (RetryableError msg), d'')) \<longleftrightarrow>
     (\<exists>e. getErr = Some e) \<and> isStatus404 resp"
  using assms by (auto simp: readArchitectDatatable_attempt_def split: option.splits)

theorem read_nil_division_counterexample:
  \<open>sdkGetArchitectDatatable sampleExternals
     (Some \<lparr>StatusCode = 200, Error_resp = None, ErrorMessage = [],
            RawBody = ''{"id":"42","name":"t"}''\<rparr>, None) =
   Returns (Some \<lparr>Id_dt = Some ''42'', Name = Some ''t'', Description = None,
                  Division = None, Schema_dt = None\<rparr>,
            Some \<lparr>StatusCode = 200, Error_resp = None, ErrorMessage = [],
                  RawBody = ''{"id":"42","name":"t"}''\<rparr>, None) \<and>
   readArchitectDatatable sampleExternals ((resourceWith [])\<lparr>rd_id := ''42''\<rparr>)
     [(0, (Some \<lparr>StatusCode = 200, Error_resp = None, ErrorMessage = [],
                 RawBody = ''{"id":"42","name":"t"}''\<rparr>, None))] =
   Panics\<close>
  by (simp add: readArchitectDatatable_def withRetriesForRead_def readArchitectDatatable_attempt_def
        sdkGetArchitectDatatable_def sdkCall_def sampleExternals_def sample_Unmarshal_def Second_def)

text \<open>
  Claim C3, as amended. With the result of \<^verbatim>\<open>sdkGetArchitectDatatable\<close> at hand,
  \<^verbatim>\<open>readArchitectDatatable\<close> goes on to the next attempt, within its deadline of 30
  seconds, exactly when the call fails with status 404; it returns the non-retryable error
  for a failure with any other status; and on a successful response whose Name, Division
  and Division.Id are set it returns no error.
\<close>

theorem read_retry:
  assumes "sdkGetArchitectDatatable E c = Returns (datatable, resp, getErr)"
  shows
  "(t < 30 * Second \<and> getErr = Some e \<and> isStatus404 resp \<longrightarrow>
      readArchitectDatatable E d ((t, c) # rest) = readArchitectDatatable E d rest) \<and>
   (t < 30 * Second \<and> getErr = Some e \<and> \<not> isStatus404 resp \<longrightarrow>
      readArchitectDatatable E d ((t, c) # rest) =
      Returns (ErrDiag (''Failed to read datatable '' @ rd_id d @ '': '' @ e), d)) \<and>
   (t < 30 * Second \<and> getErr = None \<and> datatable = Some dt \<and> Name dt = Some n \<and>
    Division dt = Some dv \<and> Id_div dv = Some i \<longrightarrow>
      (\<exists>d'. readArchitectDatatable E d ((t, c) # rest) = Returns (NoDiag, d') \<and>
            rd_id d' = rd_id d \<and> rd_name d' = n \<and> rd_division_id d' = Some i \<and>
            rd_description d' = Description dt)) \<and>
   (30 * Second \<le> t \<longrightarrow> readArchitectDatatable E d ((t, c) # rest) = Returns (TimeoutDiag, d)) \<and>
   ((\<exists>msg d''. readArchitectDatatable_attempt E c d = Returns (Some (RetryableError msg), d'')) \<longleftrightarrow>
      (\<exists>e. getErr = Some e) \<and> isStatus404 resp)"
proof (intro conjI impI)
  assume a: "t < 30 * Second \<and> getErr = Some e \<and> isStatus404 resp"
  with assms have "sdkGetArchitectDatatable E c = Returns (datatable, resp, Some e)" by simp
  from read_attempt_failure(1) [OF this, of d] a
  show "readArchitectDatatable E d ((t, c) # rest) = readArchitectDatatable E d rest"
    by (simp add: readArchitectDatatable_def withRetriesForRead_def)
next
  assume a: "t < 30 * Second \<and> getErr = Some e \<and> \<not> isStatus404 resp"
  with assms have "sdkGetArchitectDatatable E c = Returns (datatable, resp, Some e)" by simp
  from read_attempt_failure(2) [OF this, of d] a
  show "readArchitectDatatable E d ((t, c) # rest) =
      Returns (ErrDiag (''Failed to read datatable '' @ rd_id d @ '': '' @ e), d)"
    by (simp add: readArchitectDatatable_def withRetriesForRead_def)
next
  assume a: "t < 30 * Second \<and> getErr = None \<and> datatable = Some dt \<and> Name dt = Some n \<and>
    Division dt = Some dv \<and> Id_div dv = Some i"
  with assms have g: "sdkGetArchitectDatatable E c = Returns (Some dt, resp, None)" by simp
  from a have f: "Name dt = Some n" "Division dt = Some dv" "Id_div dv = Some i" by simp_all
  from read_attempt_success [OF g f, of d] a
  show "\<exists>d'. readArchitectDatatable E d ((t, c) # rest) = Returns (NoDiag, d') \<and>
            rd_id d' = rd_id d \<and> rd_name d' = n \<and> rd_division_id d' = Some i \<and>
            rd_description d' = Description dt"
    by (simp add: readArchitectDatatable_def withRetriesForRead_def)
next
  assume "30 * Second \<le> t"
  then show "readArchitectDatatable E d ((t, c) # rest) = Returns (TimeoutDiag, d)"
    by (simp add: readArchitectDatatable_def withRetriesForRead_def)
next
  show "(\<exists>msg d''. readArchitectDatatable_attempt E c d = Returns (Some (RetryableError msg), d'')) \<longleftrightarrow>
      (\<exists>e. getErr = Some e) \<and> isStatus404 resp"
    by (rule read_attempt_retry_iff [OF assms])
qed

lemma eval_get_404:
  "sdkGetArchitectDatatable sampleExternals
     (Some \<lparr>StatusCode = 404, Error_resp = Some ''not found'', ErrorMessage = ''not found'',
            RawBody = []\<rparr>, None) =
   Returns (None, Some \<lparr>StatusCode = 404, Error_resp = Some ''not found'',
                        ErrorMessage = ''not found'', RawBody = []\<rparr>, Some ''not found'')"
  by (simp add: sdkGetArchitectDatatable_def sdkCall_def)

lemma eval_get_full:
  \<open>sdkGetArchitectDatatable sampleExternals
     (Some \<lparr>StatusCode = 200, Error_resp = None, ErrorMessage = [],
            RawBody = ''{"id":"42","name":"t","division":{"id":"home"}}''\<rparr>, None) =
   Returns (Some \<lparr>Id_dt = Some ''42'', Name = Some ''t'', Description = None,
                  Division = Some \<lparr>Id_div = Some ''home''\<rparr>, Schema_dt = None\<rparr>,
            Some \<lparr>StatusCode = 200, Error_resp = None, ErrorMessage = [],
                  RawBody = ''{"id":"42","name":"t","division":{"id":"home"}}''\<rparr>, None)\<close>
  by (simp add: sdkGetArchitectDatatable_def sdkCall_def sampleExternals_def sample_Unmarshal_def)

lemma eval_get_no_division:
  \<open>sdkGetArchitectDatatable sampleExternals
     (Some \<lparr>StatusCode = 200, Error_resp = None, ErrorMessage = [],
            RawBody = ''{"id":"42","name":"t"}''\<rparr>, None) =
   Returns (Some \<lparr>Id_dt = Some ''42'', Name = Some ''t'', Description = None,
                  Division = None, Schema_dt = None\<rparr>,
            Some \<lparr>StatusCode = 200, Error_resp = None, ErrorMessage = [],
                  RawBody = ''{"id":"42","name":"t"}''\<rparr>, None)\<close>
  by (simp add: sdkGetArchitectDatatable_def sdkCall_def sampleExternals_def sample_Unmarshal_def)

theorem read_retry_witness:
  \<open>\<exists>d'. readArchitectDatatable sampleExternals ((resourceWith [])\<lparr>rd_id := ''42''\<rparr>)
     [(0, (Some \<lparr>StatusCode = 404, Error_resp = Some ''not found'', ErrorMessage = ''not found'',
                 RawBody = []\<rparr>, None)),
      (Second, (Some \<lparr>StatusCode = 200, Error_resp = None, ErrorMessage = [],
                      RawBody = ''{"id":"42","name":"t","division":{"id":"home"}}''\<rparr>, None))] =
     Returns (NoDiag, d') \<and>
     rd_id d' = ''42'' \<and> rd_name d' = ''t'' \<and> rd_division_id d' = Some ''home''\<close>
proof -
  let ?d = "(resourceWith [])\<lparr>rd_id := ''42''\<rparr>"
  let ?c0 = "(Some \<lparr>StatusCode = 404, Error_resp = Some ''not found'', ErrorMessage = ''not found'',
                 RawBody = []\<rparr>, None :: string option)"
  let ?c1 = \<open>(Some \<lparr>StatusCode = 200, Error_resp = None, ErrorMessage = [],
                      RawBody = ''{"id":"42","name":"t","division":{"id":"home"}}''\<rparr>,
              None :: string option)\<close>
  have t0: "(0::int) < 30 * Second" and t1: "Second < 30 * Second" by (simp_all add: Second_def)
  have n: "isStatus404 (Some \<lparr>StatusCode = 404, Error_resp = Some ''not found'',
              ErrorMessage = ''not found'', RawBody = []\<rparr>)"
    by (simp add: isStatus404_def)
  from read_retry [OF eval_get_404, where t = 0 and e = "''not found''" and d = ?d
      and rest = "[(Second, ?c1)]", THEN conjunct1] t0 n
  have step: "readArchitectDatatable sampleExternals ?d [(0, ?c0), (Second, ?c1)] =
              readArchitectDatatable sampleExternals ?d [(Second, ?c1)]"
    by simp
  from read_retry [OF eval_get_full, where t = Second and d = ?d and rest = "[]"
      and n = "''t''" and dv = "\<lparr>Id_div = Some ''home''\<rparr>" and i = "''home''"
      and dt = "\<lparr>Id_dt = Some ''42'', Name = Some ''t'', Description = None,
                 Division = Some \<lparr>Id_div = Some ''home''\<rparr>, Schema_dt = None\<rparr>",
      THEN conjunct2, THEN conjunct2, THEN conjunct1] t1
  have "\<exists>d'. readArchitectDatatable sampleExternals ?d [(Second, ?c1)] = Returns (NoDiag, d') \<and>
            rd_id d' = rd_id ?d \<and> rd_name d' = ''t'' \<and> rd_division_id d' = Some ''home'' \<and>
            rd_description d' = None"
    by simp
  then obtain d' where d': "readArchitectDatatable sampleExternals ?d [(Second, ?c1)] = Returns (NoDiag, d')"
      "rd_id d' = rd_id ?d" "rd_name d' = ''t''" "rd_division_id d' = Some ''home''"
    by (elim exE conjE)
  from step d'(1)
  have all: "readArchitectDatatable sampleExternals ?d [(0, ?c0), (Second, ?c1)] = Returns (NoDiag, d')"
    by (rule trans)
  have "rd_id d' = ''42''" using d'(2) by simp
  with all d'(3,4) show ?thesis by (intro exI [of _ d'] conjI)
qed

section \<open>Nil dereferences\<close>

text \<open>
  Claim C9. On a successful GET response \<^verbatim>\<open>readArchitectDatatable\<close> panics exactly when
  the datatable, its Name, its Division or the Id of its Division is nil, whereas a nil
  Description and a nil Schema or nil Properties are handled; \<^verbatim>\<open>dataSourceStationRead\<close>
  panics on a non-empty list exactly when the Id of the first station is nil. Both panics
  are reachable: there are responses with a nil Division, and with a nil first Id, on which
  the function literals panic.
\<close>

theorem nil_dereference:
  "(sdkGetArchitectDatatable E c = Returns (datatable, resp, None) \<longrightarrow>
      (readArchitectDatatable_attempt E c d = Panics \<longleftrightarrow>
         datatable = None \<or>
         (\<exists>dt. datatable = Some dt \<and>
            (Name dt = None \<or> Division dt = None \<or>
             (\<exists>dv. Division dt = Some dv \<and> Id_div dv = None))))) \<and>
   (sdkGetArchitectDatatable E c = Returns (Some dt, resp, None) \<and> Name dt = Some n \<and>
    Division dt = Some dv \<and> Id_div dv = Some i \<longrightarrow>
      (\<exists>d'. readArchitectDatatable_attempt E c d = Returns (None, d') \<and>
            rd_description d' = Description dt \<and>
            (Schema_dt dt = None \<or> (\<exists>s. Schema_dt dt = Some s \<and> Properties s = None) \<longrightarrow>
               rd_properties d' = None))) \<and>
   (Entities listing = Some (station # others) \<longrightarrow>
      (dataSourceStationRead_attempt (Some listing, resp', None) d = Panics \<longleftrightarrow>
         Id_st station = None)) \<and>
   (\<exists>c d dt resp. sdkGetArchitectDatatable sampleExternals c = Returns (Some dt, resp, None) \<and>
      Name dt \<noteq> None \<and> Division dt = None \<and>
      readArchitectDatatable_attempt sampleExternals c d = Panics) \<and>
   (\<exists>listing station others resp d. Entities listing = Some (station # others) \<and>
      Id_st station = None \<and>
      dataSourceStationRead_attempt (Some listing, resp, None) d = Panics)"
proof (intro conjI impI)
  assume "sdkGetArchitectDatatable E c = Returns (datatable, resp, None)"
  then show "readArchitectDatatable_attempt E c d = Panics \<longleftrightarrow>
         datatable = None \<or>
         (\<exists>dt. datatable = Some dt \<and>
            (Name dt = None \<or> Division dt = None \<or>
             (\<exists>dv. Division dt = Some dv \<and> Id_div dv = None)))"
    by (rule read_attempt_panics_iff)
next
  assume a: "sdkGetArchitectDatatable E c = Returns (Some dt, resp, None) \<and> Name dt = Some n \<and>
    Division dt = Some dv \<and> Id_div dv = Some i"
  then have g: "sdkGetArchitectDatatable E c = Returns (Some dt, resp, None)"
    and f: "Name dt = Some n" "Division dt = Some dv" "Id_div dv = Some i" by simp_all
  show "\<exists>d'. readArchitectDatatable_attempt E c d = Returns (None, d') \<and>
            rd_description d' = Description dt \<and>
            (Schema_dt dt = None \<or> (\<exists>s. Schema_dt dt = Some s \<and> Properties s = None) \<longrightarrow>
               rd_properties d' = None)"
    unfolding read_attempt_success [OF g f] by auto
next
  assume "Entities listing = Some (station # others)"
  then show "dataSourceStationRead_attempt (Some listing, resp', None) d = Panics \<longleftrightarrow>
         Id_st station = None"
    by (auto simp: dataSourceStationRead_attempt_def split: option.splits)
next
  have "readArchitectDatatable_attempt sampleExternals
     (Some \<lparr>StatusCode = 200, Error_resp = None, ErrorMessage = [],
            RawBody = [CHR ''{'', CHR 0x22, CHR ''i'', CHR ''d'', CHR 0x22, CHR '':'', CHR 0x22,
              CHR ''4'', CHR ''2'', CHR 0x22, CHR '','', CHR 0x22, CHR ''n'', CHR ''a'', CHR ''m'',
              CHR ''e'', CHR 0x22, CHR '':'', CHR 0x22, CHR ''t'', CHR 0x22, CHR ''}'']\<rparr>, None)
     (resourceWith []) = Panics"
    using read_attempt_panics_iff [OF eval_get_no_division, of "resourceWith []"] by simp
  with eval_get_no_division
  show "\<exists>c d dt resp. sdkGetArchitectDatatable sampleExternals c = Returns (Some dt, resp, None) \<and>
      Name dt \<noteq> None \<and> Division dt = None \<and>
      readArchitectDatatable_attempt sampleExternals c d = Panics"
    by (intro exI conjI) (assumption, simp, simp, assumption)
next
  have "dataSourceStationRead_attempt (Some \<lparr>Entities = Some [\<lparr>Id_st = None\<rparr>]\<rparr>, None, None)
          (resourceWith []) = Panics"
    by (simp add: dataSourceStationRead_attempt_def)
  then show "\<exists>listing station others resp d. Entities listing = Some (station # others) \<and>
      Id_st station = None \<and>
      dataSourceStationRead_attempt (Some listing, resp, None) d = Panics"
    by (intro exI [of _ "\<lparr>Entities = Some [\<lparr>Id_st = None\<rparr>]\<rparr>"] exI [of _ "\<lparr>Id_st = None\<rparr>"]
          exI [of _ "[]"] exI [of _ None] exI [of _ "resourceWith []"]) simp
qed

theorem nil_dereference_witness:
  \<open>readArchitectDatatable_attempt sampleExternals
     (Some \<lparr>StatusCode = 200, Error_resp = None, ErrorMessage = [],
            RawBody = ''{"id":"42","name":"t"}''\<rparr>, None) (resourceWith []) = Panics \<and>
   dataSourceStationRead_attempt
     (Some \<lparr>Entities = Some [\<lparr>Id_st = None\<rparr>, \<lparr>Id_st = Some ''s2''\<rparr>]\<rparr>, None, None)
     (resourceWith []) = Panics \<and>
   (\<exists>d'. readArchitectDatatable_attempt sampleExternals
           (Some \<lparr>StatusCode = 200, Error_resp = None, ErrorMessage = [],
                  RawBody = ''{"id":"42","name":"t","division":{"id":"home"}}''\<rparr>, None)
           (resourceWith []) = Returns (None, d') \<and>
         rd_description d' = None \<and> rd_properties d' = None)\<close>
proof (intro conjI)
  let ?dt = "\<lparr>Id_dt = Some ''42'', Name = Some ''t'', Description = None,
               Division = None, Schema_dt = None\<rparr>"
  have "Some ?dt = None \<or>
        (\<exists>dt. Some ?dt = Some dt \<and>
           (Name dt = None \<or> Division dt = None \<or> (\<exists>dv. Division dt = Some dv \<and> Id_div dv = None)))"
    by simp
  with nil_dereference [where E = sampleExternals and d = "resourceWith []" and datatable = "Some ?dt",
      THEN conjunct1, THEN mp, OF eval_get_no_division]
  show \<open>readArchitectDatatable_attempt sampleExternals
     (Some \<lparr>StatusCode = 200, Error_resp = None, ErrorMessage = [],
            RawBody = ''{"id":"42","name":"t"}''\<rparr>, None) (resourceWith []) = Panics\<close>
    by (rule iffD2)
next
  have e: "Entities \<lparr>Entities = Some [\<lparr>Id_st = None\<rparr>, \<lparr>Id_st = Some ''s2''\<rparr>]\<rparr> =
           Some (\<lparr>Id_st = None\<rparr> # [\<lparr>Id_st = Some ''s2''\<rparr>])"
    and i: "Id_st \<lparr>Id_st = None\<rparr> = None" by simp_all
  from nil_dereference [where listing = "\<lparr>Entities = Some [\<lparr>Id_st = None\<rparr>, \<lparr>Id_st = Some ''s2''\<rparr>]\<rparr>"
      and station = "\<lparr>Id_st = None\<rparr>" and others = "[\<lparr>Id_st = Some ''s2''\<rparr>]"
      and resp' = None and d = "resourceWith []",
      THEN conjunct2, THEN conjunct2, THEN conjunct1, THEN mp, OF e] i
  show "dataSourceStationRead_attempt
     (Some \<lparr>Entities = Some [\<lparr>Id_st = None\<rparr>, \<lparr>Id_st = Some ''s2''\<rparr>]\<rparr>, None, None)
     (resourceWith []) = Panics"
    by (rule iffD2)
next
  let ?dt = "\<lparr>Id_dt = Some ''42'', Name = Some ''t'', Description = None,
               Division = Some \<lparr>Id_div = Some ''home''\<rparr>, Schema_dt = None\<rparr>"
  have h: \<open>sdkGetArchitectDatatable sampleExternals
           (Some \<lparr>StatusCode = 200, Error_resp = None, ErrorMessage = [],
                  RawBody = ''{"id":"42","name":"t","division":{"id":"home"}}''\<rparr>, None) =
         Returns (Some ?dt, Some \<lparr>StatusCode = 200, Error_resp = None, ErrorMessage = [],
                  RawBody = ''{"id":"42","name":"t","division":{"id":"home"}}''\<rparr>, None) \<and>
         Name ?dt = Some ''t'' \<and> Division ?dt = Some \<lparr>Id_div = Some ''home''\<rparr> \<and>
         Id_div \<lparr>Id_div = Some ''home''\<rparr> = Some ''home''\<close>
    using eval_get_full by simp
  from nil_dereference [where E = sampleExternals and d = "resourceWith []" and dt = ?dt
      and n = "''t''" and dv = "\<lparr>Id_div = Some ''home''\<rparr>" and i = "''home''",
      THEN conjunct2, THEN conjunct1, THEN mp, OF h]
  show \<open>\<exists>d'. readArchitectDatatable_attempt sampleExternals
           (Some \<lparr>StatusCode = 200, Error_resp = None, ErrorMessage = [],
                  RawBody = ''{"id":"42","name":"t","division":{"id":"home"}}''\<rparr>, None)
           (resourceWith []) = Returns (None, d') \<and>
         rd_description d' = None \<and> rd_properties d' = None\<close>
    by simp
qed

section \<open>Errors of the API in the diagnostics\<close>

lemma sdkCall_error: "sdkCall E (response, Some err) = Returns (None, response, Some err)"
  by (simp add: sdkCall_def)

theorem create_error_counterexample:
  "createArchitectDatatable sampleExternals (resourceWith [configured ''key'' ''string'' None])
     (None, Some ''boom'') [] =
   Returns (ErrDiag ''Failed to create datatable t: boom'',
            resourceWith [configured ''key'' ''string'' None]) \<and>
   createArchitectDatatable sampleExternals (resourceWith [configured ''key'' ''string'' None])
     (None, Some ''boom'') [] \<noteq>
   Returns (ErrDiag ''boom'', resourceWith [configured ''key'' ''string'' None]) \<and>
   deleteArchitectDatatable (resourceWith []) (None, None)
     [(0, (None, Some \<lparr>StatusCode = 500, Error_resp = Some ''boom'', ErrorMessage = ''boom'',
                        RawBody = []\<rparr>, Some ''boom''))] =
   Returns (ErrDiag ''Error deleting datatable row t: boom'', resourceWith []) \<and>
   deleteArchitectDatatable (resourceWith []) (None, None)
     [(0, (None, Some \<lparr>StatusCode = 404, Error_resp = Some ''gone'', ErrorMessage = ''gone'',
                        RawBody = []\<rparr>, Some ''gone''))] =
   Returns (NoDiag, resourceWith [])"
proof (intro conjI)
  show "createArchitectDatatable sampleExternals (resourceWith [configured ''key'' ''string'' None])
     (None, Some ''boom'') [] =
   Returns (ErrDiag ''Failed to create datatable t: boom'',
            resourceWith [configured ''key'' ''string'' None])"
    by (simp add: createArchitectDatatable_def buildSdkDatatableSchema_def
          sdkPutOrPostArchitectDatatable_def sdkCall_def eval_defs)
  then show "createArchitectDatatable sampleExternals
     (resourceWith [configured ''key'' ''string'' None]) (None, Some ''boom'') [] \<noteq>
   Returns (ErrDiag ''boom'', resourceWith [configured ''key'' ''string'' None])"
    by simp
  show "deleteArchitectDatatable (resourceWith []) (None, None)
     [(0, (None, Some \<lparr>StatusCode = 500, Error_resp = Some ''boom'', ErrorMessage = ''boom'',
                        RawBody = []\<rparr>, Some ''boom''))] =
   Returns (ErrDiag ''Error deleting datatable row t: boom'', resourceWith [])"
    by (simp add: deleteArchitectDatatable_def delete_attempt_cases isStatus404_def Second_def
          resourceWith_def)
  show "deleteArchitectDatatable (resourceWith []) (None, None)
     [(0, (None, Some \<lparr>StatusCode = 404, Error_resp = Some ''gone'', ErrorMessage = ''gone'',
                        RawBody = []\<rparr>, Some ''gone''))] =
   Returns (NoDiag, resourceWith [])"
    by (simp add: deleteArchitectDatatable_def delete_attempt_cases isStatus404_def Second_def)
qed

lemma prefixed_neq: "p \<noteq> [] \<Longrightarrow> p @ n @ q @ e \<noteq> e"
proof
  assume p: "p \<noteq> []" and eq: "p @ n @ q @ e = e"
  from eq have "length (p @ n @ q @ e) = length e" by simp
  with p show False by simp
qed

text \<open>
  Claim C4, as amended. An error returned by an API call in the datatable handlers is not
  passed on as it is. The error of the POST, PUT or DELETE call ends the handler with
  \<open>Failed to create datatable\<close>, \<open>Failed to update datatable\<close> or
  \<open>Failed to delete datatable\<close>, the name, a colon and the message of the error. An error
  of the GET in read is wrapped as \<open>Failed to read datatable\<close>, the ID, a colon and the
  message: with a status other than 404 this ends the handler, with status 404 the GET is
  tried again. While polling after a delete, an error of the GET with a status other than
  404 ends the handler with \<open>Error deleting datatable row\<close>, the name, a colon and the
  message, and one with status 404 is not reported: the handler returns success. The
  message of the API error follows the prefix unchanged, and no such report equals the
  error. The two SDK calls hand on the error of \<^verbatim>\<open>CallAPI\<close> as it is and make of an error
  response an error with the response's \<^verbatim>\<open>ErrorMessage\<close>.
\<close>

theorem api_errors_prefixed:
  "(buildSdkDatatableSchema E d = Inr schema \<and>
    sdkPutOrPostArchitectDatatable E ''POST'' (requestBody None d schema) post =
      Returns (table, resp, Some err) \<longrightarrow>
      createArchitectDatatable E d post gets =
      Returns (ErrDiag (''Failed to create datatable '' @ rd_name d @ '': '' @ err), d)) \<and>
   (buildSdkDatatableSchema E d = Inr schema \<and>
    sdkPutOrPostArchitectDatatable E ''PUT'' (requestBody (Some (rd_id d)) d schema) post =
      Returns (table, resp, Some err) \<longrightarrow>
      updateArchitectDatatable E d post gets =
      Returns (ErrDiag (''Failed to update datatable '' @ rd_name d @ '': '' @ err), d)) \<and>
   deleteArchitectDatatable d (delResp, Some err) polls =
      Returns (ErrDiag (''Failed to delete datatable '' @ rd_name d @ '': '' @ err), d) \<and>
   (sdkGetArchitectDatatable E c = Returns (datatable, resp, Some err) \<longrightarrow>
      readArchitectDatatable_attempt E c d =
        Returns (Some ((if isStatus404 resp then RetryableError else NonRetryableError)
                   (''Failed to read datatable '' @ rd_id d @ '': '' @ err)), d)) \<and>
   (sdkGetArchitectDatatable E c = Returns (datatable, resp, Some err) \<and> \<not> isStatus404 resp \<and>
    t < 30 * Second \<longrightarrow>
      readArchitectDatatable E d ((t, c) # rest) =
      Returns (ErrDiag (''Failed to read datatable '' @ rd_id d @ '': '' @ err), d)) \<and>
   (sdkGetArchitectDatatable E c = Returns (datatable, resp, Some err) \<and> isStatus404 resp \<and>
    t < 30 * Second \<longrightarrow>
      readArchitectDatatable E d ((t, c) # rest) = readArchitectDatatable E d rest) \<and>
   (\<not> isStatus404 resp \<and> t < 30 * Second \<longrightarrow>
      deleteArchitectDatatable d (delResp, None) ((t, (payload, resp, Some err)) # polls) =
      Returns (ErrDiag (''Error deleting datatable row '' @ rd_name d @ '': '' @ err), d)) \<and>
   (isStatus404 resp \<and> t < 30 * Second \<longrightarrow>
      deleteArchitectDatatable d (delResp, None) ((t, (payload, resp, Some err)) # polls) =
      Returns (NoDiag, d)) \<and>
   sdkGetArchitectDatatable E (response, Some err) = Returns (None, response, Some err) \<and>
   sdkPutOrPostArchitectDatatable E method body (response, Some err) =
      Returns (None, response, Some err) \<and>
   (Error_resp r \<noteq> None \<longrightarrow>
      sdkGetArchitectDatatable E (Some r, None) = Returns (None, Some r, Some (ErrorMessage r)) \<and>
      sdkPutOrPostArchitectDatatable E method body (Some r, None) =
        Returns (None, Some r, Some (ErrorMessage r))) \<and>
   ''Failed to create datatable '' @ rd_name d @ '': '' @ err \<noteq> err \<and>
   ''Failed to update datatable '' @ rd_name d @ '': '' @ err \<noteq> err \<and>
   ''Failed to delete datatable '' @ rd_name d @ '': '' @ err \<noteq> err \<and>
   ''Failed to read datatable '' @ rd_id d @ '': '' @ err \<noteq> err \<and>
   ''Error deleting datatable row '' @ rd_name d @ '': '' @ err \<noteq> err"
proof (intro conjI impI)
  assume "buildSdkDatatableSchema E d = Inr schema \<and>
    sdkPutOrPostArchitectDatatable E ''POST'' (requestBody None d schema) post =
      Returns (table, resp, Some err)"
  then show "createArchitectDatatable E d post gets =
      Returns (ErrDiag (''Failed to create datatable '' @ rd_name d @ '': '' @ err), d)"
    by (simp add: createArchitectDatatable_def)
next
  assume "buildSdkDatatableSchema E d = Inr schema \<and>
    sdkPutOrPostArchitectDatatable E ''PUT'' (requestBody (Some (rd_id d)) d schema) post =
      Returns (table, resp, Some err)"
  then show "updateArchitectDatatable E d post gets =
      Returns (ErrDiag (''Failed to update datatable '' @ rd_name d @ '': '' @ err), d)"
    by (simp add: updateArchitectDatatable_def)
next
  show "deleteArchitectDatatable d (delResp, Some err) polls =
      Returns (ErrDiag (''Failed to delete datatable '' @ rd_name d @ '': '' @ err), d)"
    by (simp add: deleteArchitectDatatable_def)
next
  assume "sdkGetArchitectDatatable E c = Returns (datatable, resp, Some err)"
  then show "readArchitectDatatable_attempt E c d =
        Returns (Some ((if isStatus404 resp then RetryableError else NonRetryableError)
                   (''Failed to read datatable '' @ rd_id d @ '': '' @ err)), d)"
    by (simp add: readArchitectDatatable_attempt_def)
next
  assume a: "sdkGetArchitectDatatable E c = Returns (datatable, resp, Some err) \<and> \<not> isStatus404 resp \<and>
    t < 30 * Second"
  then have g: "sdkGetArchitectDatatable E c = Returns (datatable, resp, Some err)" by simp
  from read_attempt_failure(2) [OF g, of d] a
  show "readArchitectDatatable E d ((t, c) # rest) =
      Returns (ErrDiag (''Failed to read datatable '' @ rd_id d @ '': '' @ err), d)"
    by (simp add: readArchitectDatatable_def withRetriesForRead_def)
next
  assume a: "sdkGetArchitectDatatable E c = Returns (datatable, resp, Some err) \<and> isStatus404 resp \<and>
    t < 30 * Second"
  then have g: "sdkGetArchitectDatatable E c = Returns (datatable, resp, Some err)" by simp
  from read_attempt_failure(1) [OF g, of d] a
  show "readArchitectDatatable E d ((t, c) # rest) = readArchitectDatatable E d rest"
    by (simp add: readArchitectDatatable_def withRetriesForRead_def)
next
  assume "\<not> isStatus404 resp \<and> t < 30 * Second"
  then show "deleteArchitectDatatable d (delResp, None) ((t, (payload, resp, Some err)) # polls) =
      Returns (ErrDiag (''Error deleting datatable row '' @ rd_name d @ '': '' @ err), d)"
    by (simp add: deleteArchitectDatatable_def delete_attempt_cases)
next
  assume "isStatus404 resp \<and> t < 30 * Second"
  then show "deleteArchitectDatatable d (delResp, None) ((t, (payload, resp, Some err)) # polls) =
      Returns (NoDiag, d)"
    by (simp add: deleteArchitectDatatable_def delete_attempt_cases)
next
  show "sdkGetArchitectDatatable E (response, Some err) = Returns (None, response, Some err)"
    by (simp add: sdkGetArchitectDatatable_def sdkCall_error)
next
  show "sdkPutOrPostArchitectDatatable E method body (response, Some err) =
      Returns (None, response, Some err)"
    by (simp add: sdkPutOrPostArchitectDatatable_def sdkCall_error)
next
  assume "Error_resp r \<noteq> None"
  then show "sdkGetArchitectDatatable E (Some r, None) = Returns (None, Some r, Some (ErrorMessage r))"
    by (simp add: sdkGetArchitectDatatable_def sdkCall_def)
next
  assume "Error_resp r \<noteq> None"
  then show "sdkPutOrPostArchitectDatatable E method body (Some r, None) =
        Returns (None, Some r, Some (ErrorMessage r))"
    by (simp add: sdkPutOrPostArchitectDatatable_def sdkCall_def)
next
  show "''Failed to create datatable '' @ rd_name d @ '': '' @ err \<noteq> err"
    by (rule prefixed_neq) simp
next
  show "''Failed to update datatable '' @ rd_name d @ '': '' @ err \<noteq> err"
    by (rule prefixed_neq) simp
next
  show "''Failed to delete datatable '' @ rd_name d @ '': '' @ err \<noteq> err"
    by (rule prefixed_neq) simp
next
  show "''Failed to read datatable '' @ rd_id d @ '': '' @ err \<noteq> err"
    by (rule prefixed_neq) simp
next
  show "''Error deleting datatable row '' @ rd_name d @ '': '' @ err \<noteq> err"
    by (rule prefixed_neq) simp
qed

theorem api_errors_prefixed_witness:
  "createArchitectDatatable sampleExternals (resourceWith [configured ''key'' ''string'' None])
     (None, Some ''timeout'') [] =
   Returns (ErrDiag ''Failed to create datatable t: timeout'',
            resourceWith [configured ''key'' ''string'' None]) \<and>
   updateArchitectDatatable sampleExternals (resourceWith [configured ''key'' ''string'' None])
     (None, Some ''timeout'') [] =
   Returns (ErrDiag ''Failed to update datatable t: timeout'',
            resourceWith [configured ''key'' ''string'' None]) \<and>
   readArchitectDatatable_attempt sampleExternals
     (Some \<lparr>StatusCode = 404, Error_resp = Some ''not found'', ErrorMessage = ''not found'',
            RawBody = []\<rparr>, None)
     ((resourceWith [])\<lparr>rd_id := ''42''\<rparr>) =
   Returns (Some (RetryableError ''Failed to read datatable 42: not found''),
            (resourceWith [])\<lparr>rd_id := ''42''\<rparr>) \<and>
   readArchitectDatatable sampleExternals ((resourceWith [])\<lparr>rd_id := ''42''\<rparr>)
     [(0, (Some \<lparr>StatusCode = 500, Error_resp = Some ''boom'', ErrorMessage = ''boom'',
                 RawBody = []\<rparr>, None))] =
   Returns (ErrDiag ''Failed to read datatable 42: boom'', (resourceWith [])\<lparr>rd_id := ''42''\<rparr>) \<and>
   deleteArchitectDatatable (resourceWith []) (None, None)
     [(0, (None, Some \<lparr>StatusCode = 500, Error_resp = Some ''boom'', ErrorMessage = ''boom'',
                        RawBody = []\<rparr>, Some ''boom''))] =
   Returns (ErrDiag ''Error deleting datatable row t: boom'', resourceWith []) \<and>
   deleteArchitectDatatable (resourceWith []) (None, None)
     [(0, (None, Some \<lparr>StatusCode = 404, Error_resp = Some ''gone'', ErrorMessage = ''gone'',
                        RawBody = []\<rparr>, Some ''gone''))] =
   Returns (NoDiag, resourceWith [])"
proof (intro conjI)
  let ?d = "resourceWith [configured ''key'' ''string'' None]"
  let ?r500 = "\<lparr>StatusCode = 500, Error_resp = Some ''boom'', ErrorMessage = ''boom'', RawBody = []\<rparr>"
  let ?r404 = "\<lparr>StatusCode = 404, Error_resp = Some ''gone'', ErrorMessage = ''gone'', RawBody = []\<rparr>"
  have "\<exists>schema. buildSdkDatatableSchema sampleExternals ?d = Inr schema"
    by (simp add: buildSdkDatatableSchema_def eval_defs)
  then obtain schema where s: "buildSdkDatatableSchema sampleExternals ?d = Inr schema" ..
  have post: "sdkPutOrPostArchitectDatatable sampleExternals ''POST'' (requestBody None ?d schema)
                (None, Some ''timeout'') = Returns (None, None, Some ''timeout'')"
    by (simp add: sdkPutOrPostArchitectDatatable_def sdkCall_error)
  have put: "sdkPutOrPostArchitectDatatable sampleExternals ''PUT''
                (requestBody (Some (rd_id ?d)) ?d schema)
                (None, Some ''timeout'') = Returns (None, None, Some ''timeout'')"
    by (simp add: sdkPutOrPostArchitectDatatable_def sdkCall_error)
  have n: "rd_name ?d = ''t''" by (simp add: resourceWith_def)
  have t0: "(0::int) < 30 * Second" by (simp add: Second_def)
  from api_errors_prefixed [where E = sampleExternals and d = ?d and schema = schema
      and post = "(None, Some ''timeout'')" and table = None and resp = None
      and err = "''timeout''" and gets = "[]",
      THEN conjunct1, THEN mp, OF conjI [OF s post]] n
  show "createArchitectDatatable sampleExternals ?d (None, Some ''timeout'') [] =
        Returns (ErrDiag ''Failed to create datatable t: timeout'', ?d)"
    by simp
  from api_errors_prefixed [where E = sampleExternals and d = ?d and schema = schema
      and post = "(None, Some ''timeout'')" and table = None and resp = None
      and err = "''timeout''" and gets = "[]",
      THEN conjunct2, THEN conjunct1, THEN mp, OF conjI [OF s put]] n
  show "updateArchitectDatatable sampleExternals ?d (None, Some ''timeout'') [] =
        Returns (ErrDiag ''Failed to update datatable t: timeout'', ?d)"
    by simp
  have i: "isStatus404 (Some \<lparr>StatusCode = 404, Error_resp = Some ''not found'',
              ErrorMessage = ''not found'', RawBody = []\<rparr>)"
    by (simp add: isStatus404_def)
  from api_errors_prefixed [where E = sampleExternals and d = "(resourceWith [])\<lparr>rd_id := ''42''\<rparr>",
      THEN conjunct2, THEN conjunct2, THEN conjunct2, THEN conjunct1, THEN mp, OF eval_get_404] i
  show "readArchitectDatatable_attempt sampleExternals
     (Some \<lparr>StatusCode = 404, Error_resp = Some ''not found'', ErrorMessage = ''not found'',
            RawBody = []\<rparr>, None)
     ((resourceWith [])\<lparr>rd_id := ''42''\<rparr>) =
   Returns (Some (RetryableError ''Failed to read datatable 42: not found''),
            (resourceWith [])\<lparr>rd_id := ''42''\<rparr>)"
    by simp
  have g500: "sdkGetArchitectDatatable sampleExternals (Some ?r500, None) =
              Returns (None, Some ?r500, Some ''boom'')"
    by (simp add: sdkGetArchitectDatatable_def sdkCall_def)
  have n500: "\<not> isStatus404 (Some ?r500)" by (simp add: isStatus404_def)
  from api_errors_prefixed [where E = sampleExternals and d = "(resourceWith [])\<lparr>rd_id := ''42''\<rparr>"
      and t = 0 and rest = "[]",
      THEN conjunct2, THEN conjunct2, THEN conjunct2, THEN conjunct2, THEN conjunct1, THEN mp,
      OF conjI [OF g500 conjI [OF n500 t0]]]
  show "readArchitectDatatable sampleExternals ((resourceWith [])\<lparr>rd_id := ''42''\<rparr>)
     [(0, (Some ?r500, None))] =
   Returns (ErrDiag ''Failed to read datatable 42: boom'', (resourceWith [])\<lparr>rd_id := ''42''\<rparr>)"
    by simp
  have nm: "rd_name (resourceWith []) = ''t''" by (simp add: resourceWith_def)
  from api_errors_prefixed [where d = "resourceWith []" and delResp = None and t = 0
      and payload = None and resp = "Some ?r500" and err = "''boom''" and polls = "[]",
      THEN conjunct2, THEN conjunct2, THEN conjunct2, THEN conjunct2, THEN conjunct2,
      THEN conjunct2, THEN conjunct1, THEN mp, OF conjI [OF n500 t0]] nm
  show "deleteArchitectDatatable (resourceWith []) (None, None)
     [(0, (None, Some ?r500, Some ''boom''))] =
   Returns (ErrDiag ''Error deleting datatable row t: boom'', resourceWith [])"
    by simp
  have i404: "isStatus404 (Some ?r404)" by (simp add: isStatus404_def)
  from api_errors_prefixed [where d = "resourceWith []" and delResp = None and t = 0
      and payload = None and resp = "Some ?r404" and err = "''gone''" and polls = "[]",
      THEN conjunct2, THEN conjunct2, THEN conjunct2, THEN conjunct2, THEN conjunct2,
      THEN conjunct2, THEN conjunct2, THEN conjunct1, THEN mp, OF conjI [OF i404 t0]]
  show "deleteArchitectDatatable (resourceWith []) (None, None)
     [(0, (None, Some ?r404, Some ''gone''))] =
   Returns (NoDiag, resourceWith [])" .
qed

end
